theory Spec2Isabelle
  imports Complex_Main "HOL-Library.AList" "HOL-Library.Sublist"
begin

section \<open>Errors, dictionaries and keyword arguments\<close>

text \<open>
  The model class \<^verbatim>\<open>Cell2fateModel\<close> of
  \<^verbatim>\<open>src/cell2fate/_cell2fate_multiLineage_model_2.py\<close> is embedded as pure functions
  with explicit state. A Python exception is a value of type \<open>error\<close>; the exceptions that
  an external library call raises inside the library are kept apart as \<open>ExternalFailure\<close>.
\<close>

datatype error =
    KeyError string
  | IndexError
  | ValueError
  | AttributeError string
  | RuntimeError string
  | ExternalFailure string

definition bindE :: "error + 'a \<Rightarrow> ('a \<Rightarrow> error + 'b) \<Rightarrow> error + 'b" where
  "bindE r f = (case r of Inl e \<Rightarrow> Inl e | Inr x \<Rightarrow> f x)"

text \<open>
  A Python \<^verbatim>\<open>dict\<close> with string keys is an association list in insertion order:
  \<^verbatim>\<open>d[k]\<close> is \<open>lookup d k\<close> (a missing key raises \<^verbatim>\<open>KeyError\<close>) and the assignment
  \<^verbatim>\<open>d[k] = v\<close> is \<open>AList.update k v d\<close>.
\<close>

definition lookup :: "(string \<times> 'a) list \<Rightarrow> string \<Rightarrow> error + 'a" where
  "lookup d k = (case map_of d k of None \<Rightarrow> Inl (KeyError k) | Some v \<Rightarrow> Inr v)"

datatype kw_value = KwNone | KwBool bool | KwInt int

fun truthy :: "kw_value \<Rightarrow> bool" where
  "truthy KwNone = False"
| "truthy (KwBool b) = b"
| "truthy (KwInt i) = (i \<noteq> 0)"

text \<open>The argument \<^verbatim>\<open>sample_kwargs: Optional[dict] = None\<close> of \<^verbatim>\<open>export_posterior\<close>.\<close>

datatype py_arg = PyNone | PyNotDict | PyDict "(string \<times> kw_value) list"

text \<open>\<^verbatim>\<open>sample_kwargs if isinstance(sample_kwargs, dict) else dict()\<close> (line 230)\<close>

fun as_dict :: "py_arg \<Rightarrow> (string \<times> kw_value) list" where
  "as_dict (PyDict d) = d"
| "as_dict _ = []"

section \<open>Floating-point numbers\<close>

text \<open>
  A float is a real number, an infinity or NaN. Arithmetic on finite values is exact (rounding,
  overflow and the sign of zero are not modelled); the infinities and NaN follow IEEE 754, which
  is what NumPy computes: division by zero does not raise, it yields an infinity or NaN.
\<close>

datatype fl = Fin real | PInf | NInf | NaN

fun fl_neg :: "fl \<Rightarrow> fl" where
  "fl_neg (Fin x) = Fin (- x)"
| "fl_neg PInf = NInf"
| "fl_neg NInf = PInf"
| "fl_neg NaN = NaN"

fun fl_add :: "fl \<Rightarrow> fl \<Rightarrow> fl" where
  "fl_add (Fin x) (Fin y) = Fin (x + y)"
| "fl_add NaN _ = NaN"
| "fl_add _ NaN = NaN"
| "fl_add PInf NInf = NaN"
| "fl_add NInf PInf = NaN"
| "fl_add PInf _ = PInf"
| "fl_add NInf _ = NInf"
| "fl_add _ PInf = PInf"
| "fl_add _ NInf = NInf"

definition fl_sub :: "fl \<Rightarrow> fl \<Rightarrow> fl" where
  "fl_sub a b = fl_add a (fl_neg b)"

fun fl_mul :: "fl \<Rightarrow> fl \<Rightarrow> fl" where
  "fl_mul (Fin x) (Fin y) = Fin (x * y)"
| "fl_mul NaN _ = NaN"
| "fl_mul _ NaN = NaN"
| "fl_mul PInf (Fin y) = (if y = 0 then NaN else if 0 < y then PInf else NInf)"
| "fl_mul NInf (Fin y) = (if y = 0 then NaN else if 0 < y then NInf else PInf)"
| "fl_mul (Fin x) PInf = (if x = 0 then NaN else if 0 < x then PInf else NInf)"
| "fl_mul (Fin x) NInf = (if x = 0 then NaN else if 0 < x then NInf else PInf)"
| "fl_mul PInf PInf = PInf"
| "fl_mul PInf NInf = NInf"
| "fl_mul NInf PInf = NInf"
| "fl_mul NInf NInf = PInf"

fun fl_div :: "fl \<Rightarrow> fl \<Rightarrow> fl" where
  "fl_div (Fin x) (Fin y) =
     (if y \<noteq> 0 then Fin (x / y) else if x = 0 then NaN else if 0 < x then PInf else NInf)"
| "fl_div NaN _ = NaN"
| "fl_div _ NaN = NaN"
| "fl_div (Fin x) PInf = Fin 0"
| "fl_div (Fin x) NInf = Fin 0"
| "fl_div PInf (Fin y) = (if 0 \<le> y then PInf else NInf)"
| "fl_div NInf (Fin y) = (if 0 \<le> y then NInf else PInf)"
| "fl_div PInf PInf = NaN"
| "fl_div PInf NInf = NaN"
| "fl_div NInf PInf = NaN"
| "fl_div NInf NInf = NaN"

definition fl_square :: "fl \<Rightarrow> fl" where
  "fl_square a = fl_mul a a"

fun fl_sqrt :: "fl \<Rightarrow> fl" where
  "fl_sqrt (Fin x) = (if x < 0 then NaN else Fin (sqrt x))"
| "fl_sqrt PInf = PInf"
| "fl_sqrt NInf = NaN"
| "fl_sqrt NaN = NaN"

fun fl_le :: "fl \<Rightarrow> fl \<Rightarrow> bool" where
  "fl_le (Fin x) (Fin y) = (x \<le> y)"
| "fl_le NaN _ = False"
| "fl_le _ NaN = False"
| "fl_le NInf _ = True"
| "fl_le _ PInf = True"
| "fl_le PInf _ = False"
| "fl_le _ NInf = False"

text \<open>\<^verbatim>\<open>ndarray.min\<close> propagates NaN.\<close>

definition fl_min :: "fl \<Rightarrow> fl \<Rightarrow> fl" where
  "fl_min a b = (if a = NaN \<or> b = NaN then NaN else if fl_le a b then a else b)"

section \<open>NumPy arrays\<close>

text \<open>
  An array is its shape and its entries in row-major order. Every operation that creates an
  array is written with \<open>build\<close>: the shape of the result and, for each index of the result, the
  entry there.
\<close>

datatype ndarray = NDArray (shape: "nat list") (data: "fl list")

fun indices :: "nat list \<Rightarrow> nat list list" where
  "indices [] = [[]]"
| "indices (d # ds) = concat (map (\<lambda>i. map ((#) i) (indices ds)) [0..<d])"

fun ravel :: "nat list \<Rightarrow> nat list \<Rightarrow> nat" where
  "ravel (d # ds) (i # is) = i * prod_list ds + ravel ds is"
| "ravel _ _ = 0"

definition valid_index :: "nat list \<Rightarrow> nat list \<Rightarrow> bool" where
  "valid_index s idx = list_all2 (<) idx s"

definition entry :: "ndarray \<Rightarrow> nat list \<Rightarrow> fl" where
  "entry a idx = data a ! ravel (shape a) idx"

definition build :: "nat list \<Rightarrow> (nat list \<Rightarrow> fl) \<Rightarrow> ndarray" where
  "build s f = NDArray s (map f (indices s))"


text \<open>\<^verbatim>\<open>a.flatten()\<close>\<close>

definition flatten :: "ndarray \<Rightarrow> ndarray" where
  "flatten a = NDArray [length (data a)] (data a)"

text \<open>
  Selecting index \<open>j\<close> along axis \<open>ax\<close> removes that axis. The three index expressions of the
  source are instances: \<^verbatim>\<open>a[..., j]\<close>, \<^verbatim>\<open>a[:, :, j]\<close> and \<^verbatim>\<open>a[0, :, :]\<close>. An index
  expression with more indices than the array has axes raises \<^verbatim>\<open>IndexError\<close>, as does an
  index out of bounds.
\<close>

definition take_axis :: "nat \<Rightarrow> nat \<Rightarrow> ndarray \<Rightarrow> error + ndarray" where
  "take_axis ax j a =
     (if ax < length (shape a) \<and> j < shape a ! ax
      then Inr (build (take ax (shape a) @ drop (Suc ax) (shape a))
                  (\<lambda>idx. entry a (take ax idx @ j # drop ax idx)))
      else Inl IndexError)"

definition ellipsis_last :: "nat \<Rightarrow> ndarray \<Rightarrow> error + ndarray" where
  "ellipsis_last j a =
     (if shape a = [] then Inl IndexError else take_axis (length (shape a) - 1) j a)"

definition slice3 :: "nat \<Rightarrow> ndarray \<Rightarrow> error + ndarray" where
  "slice3 j a = (if length (shape a) < 3 then Inl IndexError else take_axis 2 j a)"

definition first3 :: "ndarray \<Rightarrow> error + ndarray" where
  "first3 a = (if length (shape a) < 3 then Inl IndexError else take_axis 0 0 a)"

text \<open>
  Broadcasting: the shapes are aligned at their last axes; two aligned lengths must be equal
  or one of them 1. An operand is read at the result's index with the leading axes it lacks
  dropped and 0 on the axes where its own length is 1.
\<close>

fun broadcast_rev :: "nat list \<Rightarrow> nat list \<Rightarrow> nat list option" where
  "broadcast_rev [] ys = Some ys"
| "broadcast_rev (x # xs) [] = Some (x # xs)"
| "broadcast_rev (x # xs) (y # ys) =
     (case broadcast_rev xs ys of
        None \<Rightarrow> None
      | Some zs \<Rightarrow>
          if x = y then Some (x # zs)
          else if x = 1 then Some (y # zs)
          else if y = 1 then Some (x # zs)
          else None)"

definition broadcast_shapes :: "nat list \<Rightarrow> nat list \<Rightarrow> nat list option" where
  "broadcast_shapes s1 s2 = map_option rev (broadcast_rev (rev s1) (rev s2))"

definition bidx :: "nat list \<Rightarrow> nat list \<Rightarrow> nat list" where
  "bidx s idx = map2 (\<lambda>d i. if d = 1 then 0 else i) s (drop (length idx - length s) idx)"

definition bentry :: "ndarray \<Rightarrow> nat list \<Rightarrow> fl" where
  "bentry a idx = entry a (bidx (shape a) idx)"


definition bop :: "(fl \<Rightarrow> fl \<Rightarrow> fl) \<Rightarrow> ndarray \<Rightarrow> ndarray \<Rightarrow> error + ndarray" where
  "bop f a b =
     (case broadcast_shapes (shape a) (shape b) of
        None \<Rightarrow> Inl ValueError
      | Some s \<Rightarrow> Inr (build s (\<lambda>idx. f (bentry a idx) (bentry b idx))))"

definition np_add :: "ndarray \<Rightarrow> ndarray \<Rightarrow> error + ndarray" where
  "np_add = bop fl_add"

definition np_sub :: "ndarray \<Rightarrow> ndarray \<Rightarrow> error + ndarray" where
  "np_sub = bop fl_sub"

definition np_mul :: "ndarray \<Rightarrow> ndarray \<Rightarrow> error + ndarray" where
  "np_mul = bop fl_mul"

definition np_div :: "ndarray \<Rightarrow> ndarray \<Rightarrow> error + ndarray" where
  "np_div = bop fl_div"

definition amap :: "(fl \<Rightarrow> fl) \<Rightarrow> ndarray \<Rightarrow> ndarray" where
  "amap f a = build (shape a) (\<lambda>idx. f (entry a idx))"

text \<open>\<^verbatim>\<open>a ** 2\<close> and \<^verbatim>\<open>np.sqrt(a)\<close>\<close>

definition np_square :: "ndarray \<Rightarrow> ndarray" where
  "np_square = amap fl_square"

definition np_sqrt :: "ndarray \<Rightarrow> ndarray" where
  "np_sqrt = amap fl_sqrt"

text \<open>\<^verbatim>\<open>a.min()\<close> raises \<^verbatim>\<open>ValueError\<close> on an array without entries.\<close>

definition amin :: "ndarray \<Rightarrow> error + fl" where
  "amin a = (case data a of [] \<Rightarrow> Inl ValueError | x # xs \<Rightarrow> Inr (foldl fl_min x xs))"

text \<open>\<^verbatim>\<open>a - m\<close> for a scalar \<open>m\<close>\<close>

definition sub_scalar :: "ndarray \<Rightarrow> fl \<Rightarrow> ndarray" where
  "sub_scalar a m = amap (\<lambda>v. fl_sub v m) a"

text \<open>
  \<^verbatim>\<open>pd.get_dummies(codes)\<close>: a table with one row per entry of \<open>codes\<close> and one indicator
  column per distinct value, the values in ascending order.
\<close>

datatype dataframe = DataFrame (ncols: nat) (rows: "fl list list")

definition get_dummies :: "int list \<Rightarrow> dataframe" where
  "get_dummies codes =
     (let cats = sort (remdups codes)
      in DataFrame (length cats)
           (map (\<lambda>c. map (\<lambda>k. if c = k then Fin 1 else Fin 0) cats) codes))"

definition fl_sum :: "fl list \<Rightarrow> fl" where
  "fl_sum xs = foldl fl_add (Fin 0) xs"

text \<open>
  \<^verbatim>\<open>np.dot(df, b)\<close> for a table \<open>df\<close> (two axes): a sum of products over the columns of
  \<open>df\<close> and the second-to-last axis of \<open>b\<close> (the only axis of a one-axis \<open>b\<close>); a \<open>b\<close> without
  axes scales the table. The two lengths summed over must agree.
\<close>

definition np_dot :: "dataframe \<Rightarrow> ndarray \<Rightarrow> error + ndarray" where
  "np_dot df b =
     (let n = length (rows df); k = ncols df; sb = shape b; r = length sb
      in if r = 0 then Inr (build [n, k] (\<lambda>idx. fl_mul (rows df ! (idx ! 0) ! (idx ! 1)) (entry b [])))
         else if r = 1 then
           (if sb ! 0 = k
            then Inr (build [n] (\<lambda>idx.
                   fl_sum (map (\<lambda>l. fl_mul (rows df ! (idx ! 0) ! l) (entry b [l])) [0..<k])))
            else Inl ValueError)
         else
           (if sb ! (r - 2) = k
            then Inr (build (n # take (r - 2) sb @ [last sb]) (\<lambda>idx.
                   fl_sum (map (\<lambda>l. fl_mul (rows df ! hd idx ! l)
                                      (entry b (butlast (tl idx) @ [l, last idx]))) [0..<k])))
            else Inl ValueError))"

text \<open>
  Row selection \<^verbatim>\<open>X[ind, :]\<close> by an array of row numbers, and the same expression with
  \<^verbatim>\<open>ind = None\<close>, where NumPy reads \<^verbatim>\<open>None\<close> as \<^verbatim>\<open>np.newaxis\<close> and adds a leading axis
  of length 1.
\<close>

definition take_rows :: "nat list \<Rightarrow> ndarray \<Rightarrow> error + ndarray" where
  "take_rows ind a =
     (if length (shape a) < 2 then Inl IndexError
      else if list_all (\<lambda>i. i < hd (shape a)) ind
      then Inr (build (length ind # tl (shape a)) (\<lambda>idx. entry a (ind ! hd idx # tl idx)))
      else Inl IndexError)"

definition newaxis_rows :: "ndarray \<Rightarrow> error + ndarray" where
  "newaxis_rows a = (if shape a = [] then Inl IndexError else Inr (NDArray (1 # shape a) (data a)))"

text \<open>
  A count layer is a dense array or a SciPy sparse matrix; a sparse matrix holds a table of two
  axes and cannot be indexed with \<^verbatim>\<open>None\<close>.
\<close>

datatype count_matrix = Dense ndarray | Sparse ndarray

fun to_dense :: "count_matrix \<Rightarrow> ndarray" where
  "to_dense (Dense a) = a"
| "to_dense (Sparse a) = a"

fun index_rows :: "nat list option \<Rightarrow> count_matrix \<Rightarrow> error + count_matrix" where
  "index_rows (Some ind) (Dense a) = map_sum id Dense (take_rows ind a)"
| "index_rows None (Dense a) = map_sum id Dense (newaxis_rows a)"
| "index_rows (Some ind) (Sparse a) = map_sum id Sparse (take_rows ind a)"
| "index_rows None (Sparse a) = Inl IndexError"

section \<open>The model object, the annotated data and the environment\<close>

type_synonym sample_dict = "(string \<times> ndarray) list"

type_synonym samples_t = "(string \<times> sample_dict) list"

datatype uns_value =
    UStr string
  | UNames "string list"
  | USummary sample_dict
  | UArray ndarray
  | URecord "(string \<times> uns_value) list"

text \<open>
  The \<^verbatim>\<open>AnnData\<close> object that receives the results. \<^verbatim>\<open>n_obs\<close> and \<^verbatim>\<open>n_vars\<close> are the
  lengths of its name lists. A column of \<^verbatim>\<open>obs\<close> or \<^verbatim>\<open>var\<close> must have one entry per name
  and a layer must have the shape \<^verbatim>\<open>(n_obs, n_vars)\<close> on its first two axes, otherwise the
  assignment raises \<^verbatim>\<open>ValueError\<close>.
\<close>

record anndata =
  obs_names :: "string list"
  var_names :: "string list"
  obs :: "(string \<times> ndarray) list"
  var :: "(string \<times> ndarray) list"
  uns :: "(string \<times> uns_value) list"
  layers :: "(string \<times> ndarray) list"

definition n_obs :: "anndata \<Rightarrow> nat" where
  "n_obs ad = length (obs_names ad)"

definition n_vars :: "anndata \<Rightarrow> nat" where
  "n_vars ad = length (var_names ad)"

definition set_obs :: "anndata \<Rightarrow> string \<Rightarrow> ndarray \<Rightarrow> error + anndata" where
  "set_obs ad k v =
     (if length (data v) = n_obs ad then Inr (ad\<lparr>obs := AList.update k v (obs ad)\<rparr>)
      else Inl ValueError)"

definition set_var :: "anndata \<Rightarrow> string \<Rightarrow> ndarray \<Rightarrow> error + anndata" where
  "set_var ad k v =
     (if length (data v) = n_vars ad then Inr (ad\<lparr>var := AList.update k v (var ad)\<rparr>)
      else Inl ValueError)"

definition set_layer :: "anndata \<Rightarrow> string \<Rightarrow> ndarray \<Rightarrow> error + anndata" where
  "set_layer ad k v =
     (if take 2 (shape v) = [n_obs ad, n_vars ad]
      then Inr (ad\<lparr>layers := AList.update k v (layers ad)\<rparr>)
      else Inl ValueError)"

text \<open>
  The registry of the \<^verbatim>\<open>AnnDataManager\<close> (\<^verbatim>\<open>setup_anndata\<close>): the batch code of every cell
  and the two count layers.
\<close>

record registry =
  reg_batch :: "int list"
  reg_unspliced :: count_matrix
  reg_spliced :: count_matrix

text \<open>
  The fields of \<^verbatim>\<open>self\<close> that the methods read or write. The attribute \<^verbatim>\<open>self.samples\<close>
  does not exist before \<^verbatim>\<open>export_posterior\<close> binds it: \<open>None\<close> is the missing attribute.
\<close>

record model =
  module_class_name :: string
  self_var_names :: "string list"
  self_obs_names :: "string list"
  adata_manager :: registry
  samples :: "samples_t option"
  expected_nb_param :: "sample_dict option"

text \<open>
  What the methods call outside this class: the posterior sampler of \<^verbatim>\<open>PyroSampleMixin\<close>,
  the clock, NumPy's random generator and the forward map of the module. Each is a function of a
  hidden state \<open>'w\<close>; the sampler and the forward map may fail.
\<close>

record 'w externals =
  sample_posterior :: "(string \<times> kw_value) list \<Rightarrow> 'w \<Rightarrow> (string + samples_t) \<times> 'w"
  date_today :: "'w \<Rightarrow> string"
  random_choice :: "nat \<Rightarrow> nat \<Rightarrow> 'w \<Rightarrow> nat list \<times> 'w"
  compute_expected ::
    "sample_dict \<Rightarrow> registry \<Rightarrow> nat list option \<Rightarrow> 'w \<Rightarrow> (string + sample_dict) \<times> 'w"

datatype message = WarnAllSamples | WarnVelocityPosterior | InfoNormalize

datatype event =
    CallSamplePosterior "(string \<times> kw_value) list"
  | Printed message
  | CallRandomChoice nat int
  | CallComputeExpected sample_dict "nat list option"
  | PlotPosteriorMuVsData ndarray ndarray
  | PlotTitle string

record 'w state =
  self :: model
  adata :: anndata
  world :: 'w
  trace :: "event list"

text \<open>
  A statement maps a state to the exception it raises, if any, and the state it leaves.
  \<open>exec\<close> runs statements in order and stops at the first exception.
\<close>

type_synonym 'w stmt = "'w state \<Rightarrow> error option \<times> 'w state"

fun exec :: "'w stmt list \<Rightarrow> 'w stmt" where
  "exec [] s = (None, s)"
| "exec (c # cs) s = (case c s of (Some e, s') \<Rightarrow> (Some e, s') | (None, s') \<Rightarrow> exec cs s')"

definition assign :: "('w state \<Rightarrow> error + 'w state) \<Rightarrow> 'w stmt" where
  "assign f s = (case f s of Inl e \<Rightarrow> (Some e, s) | Inr s' \<Rightarrow> (None, s'))"

definition if_stmt :: "('w state \<Rightarrow> error + bool) \<Rightarrow> 'w stmt list \<Rightarrow> 'w stmt" where
  "if_stmt cond body s =
     (case cond s of Inl e \<Rightarrow> (Some e, s) | Inr b \<Rightarrow> if b then exec body s else (None, s))"

definition print_stmt :: "message \<Rightarrow> 'w stmt" where
  "print_stmt m s = (None, s\<lparr>trace := trace s @ [Printed m]\<rparr>)"

section \<open>Exporting the posterior\<close>

text \<open>
  \<^verbatim>\<open>_export2adata(self, samples)\<close> (source lines 139 to 164) builds the result dictionary from
  the class name of the module, today's date, the names of \<^verbatim>\<open>self.adata\<close> and the four
  summaries of \<open>samples\<close>. It is written in the state-passing style of the other methods and
  returns the state it was given.
\<close>

definition export2adata ::
  "'w externals \<Rightarrow> samples_t \<Rightarrow> 'w state \<Rightarrow> (error + (string \<times> uns_value) list) \<times> 'w state" where
  "export2adata ext smp s =
     (bindE (lookup smp ''post_sample_means'') (\<lambda>means.
      bindE (lookup smp ''post_sample_stds'') (\<lambda>stds.
      bindE (lookup smp ''post_sample_q05'') (\<lambda>q05.
      bindE (lookup smp ''post_sample_q95'') (\<lambda>q95.
        Inr [(''model_name'', UStr (module_class_name (self s))),
             (''date'', UStr (date_today ext (world s))),
             (''var_names'', UNames (self_var_names (self s))),
             (''obs_names'', UNames (self_obs_names (self s))),
             (''post_sample_means'', USummary means),
             (''post_sample_stds'', USummary stds),
             (''post_sample_q05'', USummary q05),
             (''post_sample_q95'', USummary q95)])))),
      s)"

text \<open>\<^verbatim>\<open>self.samples[stat][name]\<close>\<close>

definition param :: "samples_t \<Rightarrow> string \<Rightarrow> string \<Rightarrow> error + ndarray" where
  "param smp stat name = bindE (lookup smp stat) (\<lambda>d. lookup d name)"

definition self_samples :: "'w state \<Rightarrow> error + samples_t" where
  "self_samples s =
     (case samples (self s) of None \<Rightarrow> Inl (AttributeError ''samples'') | Some smp \<Rightarrow> Inr smp)"

text \<open>\<^verbatim>\<open>self.samples[stat][name][..., 0]\<close> and \<^verbatim>\<open>self.samples[stat]['mu_RNAvelocity'][:, :, k]\<close>\<close>

definition rate :: "samples_t \<Rightarrow> string \<Rightarrow> string \<Rightarrow> error + ndarray" where
  "rate smp stat name = bindE (param smp stat name) (ellipsis_last 0)"

definition mu_component :: "samples_t \<Rightarrow> string \<Rightarrow> nat \<Rightarrow> error + ndarray" where
  "mu_component smp stat k = bindE (param smp stat ''mu_RNAvelocity'') (slice3 k)"

text \<open>The right-hand side of the assignment to \<^verbatim>\<open>adata.layers['velocity']\<close> (lines 262 to 264).\<close>

definition velocity_expr :: "samples_t \<Rightarrow> error + ndarray" where
  "velocity_expr smp =
     bindE (rate smp ''post_sample_means'' ''beta_g'') (\<lambda>b.
     bindE (mu_component smp ''post_sample_means'' 0) (\<lambda>m0.
     bindE (np_mul b m0) (\<lambda>bm.
     bindE (rate smp ''post_sample_means'' ''gamma_g'') (\<lambda>g.
     bindE (mu_component smp ''post_sample_means'' 1) (\<lambda>m1.
     bindE (np_mul g m1) (\<lambda>gm.
       np_sub bm gm))))))"

text \<open>
  \<^verbatim>\<open>E[x]**2 + sd[x]**2\<close> for a rate \<open>x\<close> and for a component of \<^verbatim>\<open>mu_RNAvelocity\<close>,
  and \<^verbatim>\<open>E[x]**2\<close> alone.
\<close>

definition rate_sq :: "samples_t \<Rightarrow> string \<Rightarrow> string \<Rightarrow> error + ndarray" where
  "rate_sq smp stat name = map_sum id np_square (rate smp stat name)"

definition mu_sq :: "samples_t \<Rightarrow> string \<Rightarrow> nat \<Rightarrow> error + ndarray" where
  "mu_sq smp stat k = map_sum id np_square (mu_component smp stat k)"

definition second_moment_rate :: "samples_t \<Rightarrow> string \<Rightarrow> error + ndarray" where
  "second_moment_rate smp name =
     bindE (rate_sq smp ''post_sample_means'' name) (\<lambda>e2.
     bindE (rate_sq smp ''post_sample_stds'' name) (\<lambda>s2.
       np_add e2 s2))"

definition second_moment_mu :: "samples_t \<Rightarrow> nat \<Rightarrow> error + ndarray" where
  "second_moment_mu smp k =
     bindE (mu_sq smp ''post_sample_means'' k) (\<lambda>e2.
     bindE (mu_sq smp ''post_sample_stds'' k) (\<lambda>s2.
       np_add e2 s2))"

text \<open>
  The right-hand side of the assignment to \<^verbatim>\<open>adata.layers['velocity_sd']\<close> (lines 265 to
  276): \<^verbatim>\<open>np.sqrt(A*B - C + D*E - F)\<close>, evaluated from left to right.
\<close>

definition velocity_sd_expr :: "samples_t \<Rightarrow> error + ndarray" where
  "velocity_sd_expr smp =
     bindE (second_moment_rate smp ''beta_g'') (\<lambda>A.
     bindE (second_moment_mu smp 0) (\<lambda>B.
     bindE (np_mul A B) (\<lambda>AB.
     bindE (rate_sq smp ''post_sample_means'' ''beta_g'') (\<lambda>b2.
     bindE (mu_sq smp ''post_sample_means'' 0) (\<lambda>m2.
     bindE (np_mul b2 m2) (\<lambda>C.
     bindE (np_sub AB C) (\<lambda>t1.
     bindE (second_moment_rate smp ''gamma_g'') (\<lambda>D.
     bindE (second_moment_mu smp 1) (\<lambda>E.
     bindE (np_mul D E) (\<lambda>DE.
     bindE (np_add t1 DE) (\<lambda>t2.
     bindE (rate_sq smp ''post_sample_means'' ''gamma_g'') (\<lambda>g2.
     bindE (mu_sq smp ''post_sample_means'' 1) (\<lambda>n2.
     bindE (np_mul g2 n2) (\<lambda>F.
     bindE (np_sub t2 F) (\<lambda>t3.
       Inr (np_sqrt t3))))))))))))))))"

text \<open>
  The right-hand side of the assignment to \<^verbatim>\<open>adata.uns['velocity_posterior']\<close> (lines 280
  to 282), on the raw draws.
\<close>

definition velocity_posterior_expr :: "samples_t \<Rightarrow> error + ndarray" where
  "velocity_posterior_expr smp =
     bindE (rate smp ''posterior_samples'' ''beta_g'') (\<lambda>b.
     bindE (bindE (param smp ''posterior_samples'' ''mu_RNAvelocity'') (ellipsis_last 0)) (\<lambda>m0.
     bindE (np_mul b m0) (\<lambda>bm.
     bindE (rate smp ''posterior_samples'' ''gamma_g'') (\<lambda>g.
     bindE (bindE (param smp ''posterior_samples'' ''mu_RNAvelocity'') (ellipsis_last 1)) (\<lambda>m1.
     bindE (np_mul g m1) (\<lambda>gm.
       np_sub bm gm))))))"

section \<open>Normalisation\<close>

text \<open>
  \<^verbatim>\<open>counts / samples[det][0,:,:] - np.dot(obs2sample, samples['s_g_gene_add'][:,:,j])\<close>
  (lines 183 and 185). A sparse count matrix divided by a dense array is divided as its dense
  form.
\<close>

definition corrected_counts ::
  "sample_dict \<Rightarrow> count_matrix \<Rightarrow> dataframe \<Rightarrow> string \<Rightarrow> nat \<Rightarrow> error + ndarray" where
  "corrected_counts smp counts obs2sample det j =
     bindE (lookup smp det) (\<lambda>y.
     bindE (first3 y) (\<lambda>d.
     bindE (np_div (to_dense counts) d) (\<lambda>q.
     bindE (lookup smp ''s_g_gene_add'') (\<lambda>sg.
     bindE (slice3 j sg) (\<lambda>bg.
     bindE (np_dot obs2sample bg) (\<lambda>m.
       np_sub q m))))))"

text \<open>\<^verbatim>\<open>adata.layers[key] = corrected - corrected.min()\<close> (lines 184 and 186)\<close>

definition store_shifted :: "anndata \<Rightarrow> string \<Rightarrow> ndarray \<Rightarrow> error + anndata" where
  "store_shifted ad key c = bindE (amin c) (\<lambda>m. set_layer ad key (sub_scalar c m))"

text \<open>
  \<^verbatim>\<open>normalize(self, samples, adata_manager, adata)\<close> (lines 166 to 188) returns the exception
  raised, if any, and \<open>adata\<close> as it has been updated until then.
\<close>

definition normalize :: "sample_dict \<Rightarrow> registry \<Rightarrow> anndata \<Rightarrow> error option \<times> anndata" where
  "normalize smp mgr ad =
     (let obs2sample = get_dummies (reg_batch mgr)
      in case corrected_counts smp (reg_unspliced mgr) obs2sample ''detection_y_cu'' 0 of
           Inl e \<Rightarrow> (Some e, ad)
         | Inr uc \<Rightarrow>
            (case store_shifted ad ''unspliced_norm'' uc of
               Inl e \<Rightarrow> (Some e, ad)
             | Inr ad1 \<Rightarrow>
                (case corrected_counts smp (reg_spliced mgr) obs2sample ''detection_y_cs'' 1 of
                   Inl e \<Rightarrow> (Some e, ad1)
                 | Inr sc \<Rightarrow>
                    (case store_shifted ad1 ''spliced_norm'' sc of
                       Inl e \<Rightarrow> (Some e, ad1)
                     | Inr ad2 \<Rightarrow> (None, ad2)))))"

section \<open>The statements of \<^verbatim>\<open>export_posterior\<close>\<close>

text \<open>\<^verbatim>\<open>self.samples = self.sample_posterior(**sample_kwargs)\<close> (line 234)\<close>

definition sample_stmt :: "'w externals \<Rightarrow> (string \<times> kw_value) list \<Rightarrow> 'w stmt" where
  "sample_stmt ext kw s =
     (case sample_posterior ext kw (world s) of (r, w') \<Rightarrow>
        let s' = s\<lparr>world := w', trace := trace s @ [CallSamplePosterior kw]\<rparr>
        in case r of
             Inl msg \<Rightarrow> (Some (ExternalFailure msg), s')
           | Inr smp \<Rightarrow> (None, s'\<lparr>self := (self s')\<lparr>samples := Some smp\<rparr>\<rparr>))"

text \<open>\<^verbatim>\<open>adata.uns[export_slot] = self._export2adata(self.samples)\<close> (line 238)\<close>

definition export_stmt :: "'w externals \<Rightarrow> string \<Rightarrow> 'w stmt" where
  "export_stmt ext export_slot s =
     (case self_samples s of
        Inl e \<Rightarrow> (Some e, s)
      | Inr smp \<Rightarrow>
         (case export2adata ext smp s of
            (Inl e, s') \<Rightarrow> (Some e, s')
          | (Inr res, s') \<Rightarrow>
              (None, s'\<lparr>adata := (adata s')\<lparr>uns := AList.update export_slot (URecord res)
                                                      (uns (adata s'))\<rparr>\<rparr>)))"

text \<open>\<^verbatim>\<open>sample_kwargs['return_samples']\<close> as a condition (lines 240 and 277)\<close>

definition return_samples_cond :: "(string \<times> kw_value) list \<Rightarrow> error + bool" where
  "return_samples_cond kw = bindE (lookup kw ''return_samples'') (\<lambda>v. Inr (truthy v))"

text \<open>\<^verbatim>\<open>adata.uns[export_slot]['post_samples'] = self.samples['posterior_samples']\<close> (line 242)\<close>

definition post_samples_stmt :: "string \<Rightarrow> 'w stmt" where
  "post_samples_stmt export_slot =
     assign (\<lambda>s.
       bindE (self_samples s) (\<lambda>smp.
       bindE (lookup smp ''posterior_samples'') (\<lambda>ps.
       bindE (lookup (uns (adata s)) export_slot) (\<lambda>u.
         case u of
           URecord res \<Rightarrow>
             Inr (s\<lparr>adata := (adata s)\<lparr>uns := AList.update export_slot
                    (URecord (AList.update ''post_samples'' (USummary ps) res)) (uns (adata s))\<rparr>\<rparr>)
         | _ \<Rightarrow> Inl ValueError))))"

text \<open>
  \<^verbatim>\<open>adata.obs[key] = self.samples[stat][name].flatten()\<close> (lines 244 to 249) and the same
  for \<^verbatim>\<open>adata.var\<close> (lines 251 to 260)
\<close>

definition obs_stmt :: "string \<Rightarrow> string \<Rightarrow> string \<Rightarrow> 'w stmt" where
  "obs_stmt key stat name =
     assign (\<lambda>s.
       bindE (self_samples s) (\<lambda>smp.
       bindE (param smp stat name) (\<lambda>a.
       bindE (set_obs (adata s) key (flatten a)) (\<lambda>ad.
         Inr (s\<lparr>adata := ad\<rparr>)))))"

definition var_stmt :: "string \<Rightarrow> string \<Rightarrow> string \<Rightarrow> 'w stmt" where
  "var_stmt key stat name =
     assign (\<lambda>s.
       bindE (self_samples s) (\<lambda>smp.
       bindE (param smp stat name) (\<lambda>a.
       bindE (set_var (adata s) key (flatten a)) (\<lambda>ad.
         Inr (s\<lparr>adata := ad\<rparr>)))))"

text \<open>\<^verbatim>\<open>adata.layers[key] = expr\<close> for an expression over \<^verbatim>\<open>self.samples\<close>\<close>

definition layer_stmt :: "string \<Rightarrow> (samples_t \<Rightarrow> error + ndarray) \<Rightarrow> 'w stmt" where
  "layer_stmt key expr =
     assign (\<lambda>s.
       bindE (self_samples s) (\<lambda>smp.
       bindE (expr smp) (\<lambda>v.
       bindE (set_layer (adata s) key v) (\<lambda>ad.
         Inr (s\<lparr>adata := ad\<rparr>)))))"

text \<open>\<^verbatim>\<open>adata.uns['velocity_posterior'] = ...\<close> (lines 280 to 282)\<close>

definition velocity_posterior_stmt :: "'w stmt" where
  "velocity_posterior_stmt =
     assign (\<lambda>s.
       bindE (self_samples s) (\<lambda>smp.
       bindE (velocity_posterior_expr smp) (\<lambda>v.
         Inr (s\<lparr>adata := (adata s)\<lparr>uns := AList.update ''velocity_posterior'' (UArray v)
                                           (uns (adata s))\<rparr>\<rparr>))))"

text \<open>
  \<^verbatim>\<open>adata = self.normalize(self.samples['post_sample_means'], self.adata_manager, adata)\<close>
  (line 286)
\<close>

definition normalize_stmt :: "'w stmt" where
  "normalize_stmt s =
     (case bindE (self_samples s) (\<lambda>smp. lookup smp ''post_sample_means'') of
        Inl e \<Rightarrow> (Some e, s)
      | Inr means \<Rightarrow>
         (case normalize means (adata_manager (self s)) (adata s) of
            (r, ad) \<Rightarrow> (r, s\<lparr>adata := ad\<rparr>)))"

text \<open>The statements of \<^verbatim>\<open>export_posterior\<close> after the draw and the export (lines 240 to 286).\<close>

definition annotate_stmts :: "(string \<times> kw_value) list \<Rightarrow> string \<Rightarrow> bool \<Rightarrow> bool \<Rightarrow> 'w stmt list" where
  "annotate_stmts sample_kwargs export_slot full_velocity_posterior normalize_flag =
        [if_stmt (\<lambda>s. return_samples_cond sample_kwargs)
           [print_stmt WarnAllSamples, post_samples_stmt export_slot],
         obs_stmt ''latent_time_mean'' ''post_sample_means'' ''T_c'',
         obs_stmt ''latent_time_sd'' ''post_sample_stds'' ''T_c'',
         obs_stmt ''normalization_factor_unspliced_mean'' ''post_sample_means'' ''detection_y_cu'',
         obs_stmt ''normalization_factor_unspliced_sd'' ''post_sample_stds'' ''detection_y_cu'',
         obs_stmt ''normalization_factor_spliced_mean'' ''post_sample_means'' ''detection_y_cs'',
         obs_stmt ''normalization_factor_spliced_sd'' ''post_sample_stds'' ''detection_y_cs'',
         var_stmt ''transcription_rate_mean'' ''post_sample_means'' ''alpha_g'',
         var_stmt ''transcription_rate_sd'' ''post_sample_stds'' ''alpha_g'',
         var_stmt ''splicing_rate_mean'' ''post_sample_means'' ''beta_g'',
         var_stmt ''splicing_rate_sd'' ''post_sample_stds'' ''beta_g'',
         var_stmt ''degredation_rate_mean'' ''post_sample_means'' ''gamma_g'',
         var_stmt ''degredation_rate_sd'' ''post_sample_stds'' ''gamma_g'',
         var_stmt ''switchON_time_mean'' ''post_sample_means'' ''T_gON'',
         var_stmt ''switchON_time_sd'' ''post_sample_stds'' ''T_gON'',
         var_stmt ''switchOFF_time_mean'' ''post_sample_means'' ''T_gOFF'',
         var_stmt ''switchOFF_time_sd'' ''post_sample_stds'' ''T_gOFF'',
         layer_stmt ''velocity'' velocity_expr,
         layer_stmt ''velocity_sd'' velocity_sd_expr,
         if_stmt (\<lambda>s. bindE (return_samples_cond sample_kwargs)
                         (\<lambda>b. Inr (b \<and> full_velocity_posterior)))
           [print_stmt WarnVelocityPosterior, velocity_posterior_stmt],
         if_stmt (\<lambda>s. Inr normalize_flag)
           [print_stmt InfoNormalize, normalize_stmt]]"

text \<open>
  \<^verbatim>\<open>export_posterior(self, adata, sample_kwargs, export_slot, full_velocity_posterior,
  normalize)\<close> (lines 190 to 288). The state holds \<^verbatim>\<open>self\<close> and \<^verbatim>\<open>adata\<close>; the method
  returns \<^verbatim>\<open>adata\<close>.
\<close>

definition export_posterior :: "'w externals \<Rightarrow> py_arg \<Rightarrow> string \<Rightarrow> bool \<Rightarrow> bool \<Rightarrow> 'w stmt" where
  "export_posterior ext sample_kwargs_arg export_slot full_velocity_posterior normalize_flag =
     (let sample_kwargs = as_dict sample_kwargs_arg
      in exec
        (sample_stmt ext sample_kwargs #
         export_stmt ext export_slot #
         annotate_stmts sample_kwargs export_slot full_velocity_posterior normalize_flag))"

section \<open>Reconstruction plots\<close>

text \<open>
  \<^verbatim>\<open>np.random.choice(n, k, replace=False)\<close> with \<open>k \<le> n\<close>: a negative size raises
  \<^verbatim>\<open>ValueError\<close>; otherwise the generator is asked for \<open>k\<close> of the \<open>n\<close> row numbers, no
  weights given.
\<close>

definition choice_stmt :: "'w externals \<Rightarrow> nat \<Rightarrow> int \<Rightarrow> 'w state \<Rightarrow> (error + nat list) \<times> 'w state" where
  "choice_stmt ext n k s =
     (if k < 0 \<or> int n < k then (Inl ValueError, s)
      else case random_choice ext n (nat k) (world s) of (ind, w') \<Rightarrow>
             (Inr ind, s\<lparr>world := w', trace := trace s @ [CallRandomChoice n k]\<rparr>))"

text \<open>One plot of the generator \<^verbatim>\<open>generatePlots\<close> (lines 338 to 342 and 344 to 348).\<close>

definition plot_segment ::
  "nat list option \<Rightarrow> (registry \<Rightarrow> count_matrix) \<Rightarrow> nat \<Rightarrow> string \<Rightarrow> 'w stmt" where
  "plot_segment ind_x layer k title s =
     (case bindE (index_rows ind_x (layer (adata_manager (self s)))) (\<lambda>x.
           bindE (case expected_nb_param (self s) of
                    None \<Rightarrow> Inl (AttributeError ''expected_nb_param'')
                  | Some ex \<Rightarrow> lookup ex ''mu'') (\<lambda>mu.
           bindE (slice3 k mu) (\<lambda>m.
             Inr (m, to_dense x)))) of
        Inl e \<Rightarrow> (Some e, s)
      | Inr (m, x) \<Rightarrow> (None, s\<lparr>trace := trace s @ [PlotPosteriorMuVsData m x, PlotTitle title]\<rparr>))"

definition generatePlots :: "nat list option \<Rightarrow> 'w stmt list" where
  "generatePlots ind_x =
     [plot_segment ind_x reg_unspliced 0 ''Reconstruction Accuracy (unspliced)'',
      plot_segment ind_x reg_spliced 1 ''Reconstruction Accuracy (spliced)'']"

text \<open>
  Modelled from the spec: \<^verbatim>\<open>multiplot_from_generator\<close> of \<^verbatim>\<open>cell2fate.utils\<close> is not among
  the source files. It is the rendering loop that consumes the sequence of plots of a
  generator: it runs every plot of the generator in order.
\<close>

definition multiplot_from_generator :: "'w stmt list \<Rightarrow> nat \<Rightarrow> 'w stmt" where
  "multiplot_from_generator g num_columns = exec g"

text \<open>
  \<^verbatim>\<open>plot_QC(self, summary_name, use_n_obs)\<close> (lines 304 to 349); \<open>use_n_obs\<close> is an integer
  or \<^verbatim>\<open>None\<close>.
\<close>

definition plot_QC_message :: string where
  "plot_QC_message = ''self.samples is missing, please run self.export_posterior() first''"

definition plot_QC :: "'w externals \<Rightarrow> string \<Rightarrow> int option \<Rightarrow> 'w stmt" where
  "plot_QC ext summary_name use_n_obs s =
     (case samples (self s) of
        None \<Rightarrow> (Some (RuntimeError plot_QC_message), s)
      | Some smp \<Rightarrow>
         (case (case use_n_obs of
                  Some n \<Rightarrow>
                    (case choice_stmt ext (length (self_obs_names (self s)))
                            (min n (int (length (self_obs_names (self s))))) s of
                       (r, s') \<Rightarrow> (map_sum id Some r, s'))
                | None \<Rightarrow> (Inr None, s)) of
            (Inl e, s1) \<Rightarrow> (Some e, s1)
          | (Inr ind_x, s1) \<Rightarrow>
             (case lookup smp (''post_sample_'' @ summary_name) of
                Inl e \<Rightarrow> (Some e, s1)
              | Inr summary \<Rightarrow>
                 (case compute_expected ext summary (adata_manager (self s1)) ind_x (world s1) of
                    (r, w2) \<Rightarrow>
                      let s2 = s1\<lparr>world := w2,
                                  trace := trace s1 @ [CallComputeExpected summary ind_x]\<rparr>
                      in case r of
                           Inl msg \<Rightarrow> (Some (ExternalFailure msg), s2)
                         | Inr ex \<Rightarrow>
                             multiplot_from_generator (generatePlots ind_x) 3
                               (s2\<lparr>self := (self s2)\<lparr>expected_nb_param := Some ex\<rparr>\<rparr>)))))"


section \<open>Properties of statements\<close>

text \<open>
  A statement keeps the draw when it leaves \<^verbatim>\<open>self.samples\<close> as it is and only adds
  to the trace. Two states agree when they hold the same \<^verbatim>\<open>adata\<close> and the same
  \<^verbatim>\<open>self.samples\<close>; a statement preserves this when, run on two states that agree, it
  raises the same exception or none and leaves two states that agree.
\<close>

definition keeps_draw :: "'w stmt \<Rightarrow> bool" where
  "keeps_draw c =
     (\<forall>s. samples (self (snd (c s))) = samples (self s) \<and> prefix (trace s) (trace (snd (c s))))"

definition agree :: "'w state \<Rightarrow> 'w state \<Rightarrow> bool" where
  "agree s t = (adata s = adata t \<and> samples (self s) = samples (self t))"

definition preserves_agree :: "'w stmt \<Rightarrow> bool" where
  "preserves_agree c = (\<forall>s t. agree s t \<longrightarrow> fst (c s) = fst (c t) \<and> agree (snd (c s)) (snd (c t)))"

text \<open>A statement keeps a layer when it leaves \<^verbatim>\<open>adata.layers[k]\<close> as it is.\<close>

definition keeps_layer :: "string \<Rightarrow> 'w stmt \<Rightarrow> bool" where
  "keeps_layer k c = (\<forall>s. map_of (layers (adata (snd (c s)))) k = map_of (layers (adata s)) k)"

section \<open>The formulas of the specification\<close>

text \<open>
  The per-gene shapes under which \<^verbatim>\<open>x[..., 0]\<close> multiplied with a cells by genes matrix
  uses the entry of gene \<open>g\<close> in column \<open>g\<close>: \<^verbatim>\<open>(G, 1)\<close>, \<^verbatim>\<open>(1, G, 1)\<close>, and an array of one
  entry when there is one gene.
\<close>

definition per_gene :: "nat \<Rightarrow> ndarray \<Rightarrow> bool" where
  "per_gene G x = (shape x = [G, 1] \<or> shape x = [1, G, 1] \<or> (G = 1 \<and> shape x = [1]))"






section \<open>Example inputs\<close>

text \<open>
  One cell and one gene, the scenario of the specification: \<^verbatim>\<open>beta_g = [2.0]\<close>,
  \<^verbatim>\<open>gamma_g = [1.0]\<close>, \<^verbatim>\<open>mu_RNAvelocity[:,:,0] = [3.0]\<close> and
  \<^verbatim>\<open>mu_RNAvelocity[:,:,1] = [1.0]\<close>. The latent time \<open>t\<close> is left open, so that two draws
  can differ.
\<close>

definition cube :: "real \<Rightarrow> ndarray" where
  "cube x = NDArray [1, 1, 1] [Fin x]"

definition vec :: "real list \<Rightarrow> ndarray" where
  "vec xs = NDArray [length xs] (map Fin xs)"

definition scenario_means :: "real \<Rightarrow> sample_dict" where
  "scenario_means t =
     [(''T_c'', cube t), (''detection_y_cu'', cube 2), (''detection_y_cs'', cube 4),
      (''s_g_gene_add'', NDArray [1, 1, 2] [Fin 1, Fin 3]),
      (''alpha_g'', vec [1]), (''beta_g'', vec [2]), (''gamma_g'', vec [1]),
      (''T_gON'', vec [0]), (''T_gOFF'', vec [1]),
      (''mu_RNAvelocity'', NDArray [1, 1, 2] [Fin 3, Fin 1])]"

definition scenario_stds :: sample_dict where
  "scenario_stds =
     [(''T_c'', cube 0), (''detection_y_cu'', cube 0), (''detection_y_cs'', cube 0),
      (''s_g_gene_add'', NDArray [1, 1, 2] [Fin 0, Fin 0]),
      (''alpha_g'', vec [0]), (''beta_g'', vec [0]), (''gamma_g'', vec [0]),
      (''T_gON'', vec [0]), (''T_gOFF'', vec [0]),
      (''mu_RNAvelocity'', NDArray [1, 1, 2] [Fin 4, Fin 0])]"

definition scenario_samples :: "real \<Rightarrow> samples_t" where
  "scenario_samples t =
     [(''post_sample_means'', scenario_means t), (''post_sample_stds'', scenario_stds),
      (''post_sample_q05'', scenario_means t), (''post_sample_q95'', scenario_means t)]"

text \<open>
  An environment whose hidden state counts the calls of the sampler: the \<open>w\<close>-th draw has
  latent time \<open>w\<close>. The random generator returns the last \<open>k\<close> row numbers and the forward map
  returns a constant \<^verbatim>\<open>mu\<close> with one row per selected cell.
\<close>

definition example_ext :: "nat externals" where
  "example_ext =
     \<lparr>sample_posterior = (\<lambda>kw w. (Inr (scenario_samples (real w)), Suc w)),
      date_today = (\<lambda>w. ''2024-01-01''),
      random_choice = (\<lambda>n k w. (take k (rev [0..<n]), w)),
      compute_expected = (\<lambda>summary mgr ind w.
        (Inr [(''mu'', build [case ind of None \<Rightarrow> length (reg_batch mgr) | Some xs \<Rightarrow> length xs, 1, 2]
                         (\<lambda>idx. Fin 1))], w))\<rparr>"

definition example_registry :: registry where
  "example_registry =
     \<lparr>reg_batch = [0], reg_unspliced = Dense (NDArray [1, 1] [Fin 4]),
      reg_spliced = Dense (NDArray [1, 1] [Fin 6])\<rparr>"

definition example_model :: model where
  "example_model =
     \<lparr>module_class_name = ''Cell2FateBaseModule'', self_var_names = [''g0''],
      self_obs_names = [''c0''], adata_manager = example_registry, samples = None,
      expected_nb_param = None\<rparr>"

definition example_adata :: anndata where
  "example_adata =
     \<lparr>obs_names = [''c0''], var_names = [''g0''], obs = [], var = [], uns = [], layers = []\<rparr>"

definition example_state :: "nat state" where
  "example_state = \<lparr>self = example_model, adata = example_adata, world = 0, trace = []\<rparr>"

text \<open>The same state after a draw has been bound to \<^verbatim>\<open>self.samples\<close>.\<close>

definition sampled_state :: "nat state" where
  "sampled_state =
     example_state\<lparr>self := example_model\<lparr>samples := Some (scenario_samples 0)\<rparr>\<rparr>"

text \<open>
  The state that \<^verbatim>\<open>export_posterior(adata, sample_kwargs={'return_samples': False},
  normalize=False)\<close> leaves when it is called in \<open>example_state\<close>.
\<close>

definition exported_state :: "nat state" where
  "exported_state =
     \<lparr>self = example_model\<lparr>samples := Some (scenario_samples 0)\<rparr>,
      adata = example_adata
        \<lparr>obs := [(''latent_time_mean'', vec [0]), (''latent_time_sd'', vec [0]),
                 (''normalization_factor_unspliced_mean'', vec [2]),
                 (''normalization_factor_unspliced_sd'', vec [0]),
                 (''normalization_factor_spliced_mean'', vec [4]),
                 (''normalization_factor_spliced_sd'', vec [0])],
         var := [(''transcription_rate_mean'', vec [1]), (''transcription_rate_sd'', vec [0]),
                 (''splicing_rate_mean'', vec [2]), (''splicing_rate_sd'', vec [0]),
                 (''degredation_rate_mean'', vec [1]), (''degredation_rate_sd'', vec [0]),
                 (''switchON_time_mean'', vec [0]), (''switchON_time_sd'', vec [0]),
                 (''switchOFF_time_mean'', vec [1]), (''switchOFF_time_sd'', vec [0])],
         uns := [(''mod'', URecord
                   [(''model_name'', UStr ''Cell2FateBaseModule''),
                    (''date'', UStr ''2024-01-01''),
                    (''var_names'', UNames [''g0'']),
                    (''obs_names'', UNames [''c0'']),
                    (''post_sample_means'', USummary (scenario_means 0)),
                    (''post_sample_stds'', USummary scenario_stds),
                    (''post_sample_q05'', USummary (scenario_means 0)),
                    (''post_sample_q95'', USummary (scenario_means 0))])],
         layers := [(''velocity'', NDArray [1, 1] [Fin 5]),
                    (''velocity_sd'', NDArray [1, 1] [Fin 8])]\<rparr>,
      world = 1,
      trace = [CallSamplePosterior [(''return_samples'', KwBool False)]]\<rparr>"

text \<open>
  One cell and two genes, with the rates as arrays of one axis:
  \<^verbatim>\<open>beta_g = [2.0, 4.0]\<close> and \<^verbatim>\<open>gamma_g = [1.0, 1.0]\<close>; both genes have
  \<^verbatim>\<open>mu_RNAvelocity[0, g, :] = [3.0, 1.0]\<close>.
\<close>

definition two_gene_mu :: ndarray where
  "two_gene_mu = NDArray [1, 2, 2] [Fin 3, Fin 1, Fin 3, Fin 1]"

definition two_gene_means :: sample_dict where
  "two_gene_means =
     [(''T_c'', cube 0), (''detection_y_cu'', cube 2), (''detection_y_cs'', cube 4),
      (''s_g_gene_add'', NDArray [1, 2, 2] [Fin 1, Fin 3, Fin 1, Fin 3]),
      (''alpha_g'', vec [1, 1]), (''beta_g'', vec [2, 4]), (''gamma_g'', vec [1, 1]),
      (''T_gON'', vec [0, 0]), (''T_gOFF'', vec [1, 1]),
      (''mu_RNAvelocity'', two_gene_mu)]"

definition two_gene_stds :: sample_dict where
  "two_gene_stds =
     [(''T_c'', cube 0), (''detection_y_cu'', cube 0), (''detection_y_cs'', cube 0),
      (''s_g_gene_add'', NDArray [1, 2, 2] [Fin 0, Fin 0, Fin 0, Fin 0]),
      (''alpha_g'', vec [0, 0]), (''beta_g'', vec [0, 0]), (''gamma_g'', vec [0, 0]),
      (''T_gON'', vec [0, 0]), (''T_gOFF'', vec [0, 0]),
      (''mu_RNAvelocity'', NDArray [1, 2, 2] [Fin 0, Fin 0, Fin 0, Fin 0])]"

definition two_gene_samples :: samples_t where
  "two_gene_samples =
     [(''post_sample_means'', two_gene_means), (''post_sample_stds'', two_gene_stds),
      (''post_sample_q05'', two_gene_means), (''post_sample_q95'', two_gene_means)]"

definition two_gene_ext :: "nat externals" where
  "two_gene_ext = example_ext\<lparr>sample_posterior := (\<lambda>kw w. (Inr two_gene_samples, Suc w))\<rparr>"

definition two_gene_state :: "nat state" where
  "two_gene_state =
     \<lparr>self = example_model\<lparr>self_var_names := [''g0'', ''g1'']\<rparr>,
      adata = example_adata\<lparr>var_names := [''g0'', ''g1'']\<rparr>,
      world = 0, trace = []\<rparr>"




definition pair_registry :: registry where
  "pair_registry =
     \<lparr>reg_batch = [0, 0], reg_unspliced = Dense (NDArray [2, 1] [Fin 4, Fin 8]),
      reg_spliced = Dense (NDArray [2, 1] [Fin 16, Fin 40])\<rparr>"

definition pair_adata :: anndata where
  "pair_adata = example_adata\<lparr>obs_names := [''c0'', ''c1'']\<rparr>"

text \<open>A model of the two cells above on which the posterior has been exported.\<close>

definition pair_state :: "nat state" where
  "pair_state =
     \<lparr>self = example_model\<lparr>self_obs_names := [''c0'', ''c1''], adata_manager := pair_registry,
                             samples := Some (scenario_samples 0)\<rparr>,
      adata = pair_adata, world = 0, trace = []\<rparr>"

section \<open>Indexing and broadcasting\<close>

lemma length_indices: "length (indices s) = prod_list s"
proof (induction s)
  case Nil
  show ?case by simp
next
  case (Cons d ds)
  have "length (concat (map (\<lambda>i. map ((#) i) (indices ds)) [0..<d])) = d * prod_list ds"
    by (induction d) (simp_all add: Cons)
  then show ?case by simp
qed

lemma concat_block_nth:
  assumes "\<And>k. k < d \<Longrightarrow> length (f k) = m" and "i < d" and "r < m"
  shows "concat (map f [0..<d]) ! (i * m + r) = f i ! r"
  using assms
proof (induction d)
  case 0
  then show ?case by simp
next
  case (Suc d)
  have len: "length (concat (map f [0..<d])) = d * m"
    using Suc.prems(1) by (induction d) simp_all
  show ?case
  proof (cases "i < d")
    case True
    have "i * m + r < Suc i * m" using Suc.prems(3) by simp
    also have "\<dots> \<le> d * m" using True by (intro mult_le_mono1) simp
    finally have "i * m + r < d * m" .
    then show ?thesis using Suc True len by (simp add: nth_append)
  next
    case False
    then have "i = d" using Suc.prems(2) by simp
    then show ?thesis using len by (simp add: nth_append)
  qed
qed

lemma ravel_indices:
  "valid_index s idx \<Longrightarrow> ravel s idx < prod_list s \<and> indices s ! ravel s idx = idx"
proof (induction s arbitrary: idx)
  case Nil
  then show ?case by (simp add: valid_index_def)
next
  case (Cons d ds)
  then obtain i js where idx: "idx = i # js" and i: "i < d" and v: "valid_index ds js"
    by (auto simp: valid_index_def list_all2_Cons2)
  from Cons.IH[OF v] have r: "ravel ds js < prod_list ds" and n: "indices ds ! ravel ds js = js"
    by auto
  have "i * prod_list ds + ravel ds js < Suc i * prod_list ds" using r by simp
  also have "\<dots> \<le> d * prod_list ds" using i by (intro mult_le_mono1) simp
  finally have lt: "i * prod_list ds + ravel ds js < d * prod_list ds" .
  have "concat (map (\<lambda>i. map ((#) i) (indices ds)) [0..<d]) ! (i * prod_list ds + ravel ds js)
        = map ((#) i) (indices ds) ! ravel ds js"
    by (rule concat_block_nth) (simp_all add: length_indices i r)
  then show ?case using lt n r idx by (simp add: length_indices)
qed

lemma shape_build [simp]: "shape (build s f) = s"
  by (simp add: build_def)

lemma entry_build: "valid_index s idx \<Longrightarrow> entry (build s f) idx = f idx"
  using ravel_indices[of s idx] by (simp add: entry_def build_def length_indices)

lemma valid_index_nth:
  "valid_index s idx = (length idx = length s \<and> (\<forall>i < length s. idx ! i < s ! i))"
  by (auto simp: valid_index_def list_all2_conv_all_nth)

lemma length_bidx: "length s1 \<le> length idx \<Longrightarrow> length (bidx s1 idx) = length s1"
  by (simp add: bidx_def)

lemma nth_bidx:
  "length s1 \<le> length idx \<Longrightarrow> i < length s1 \<Longrightarrow>
   bidx s1 idx ! i = (if s1 ! i = 1 then 0 else idx ! (i + (length idx - length s1)))"
  by (simp add: bidx_def add.commute)





lemma bidx_self: "valid_index s idx \<Longrightarrow> bidx s idx = idx"
  by (rule nth_equalityI) (auto simp: valid_index_nth length_bidx nth_bidx)



lemma bop_shape_entry:
  assumes "bop f a b = Inr r"
  shows "broadcast_shapes (shape a) (shape b) = Some (shape r)"
    and "valid_index (shape r) idx \<Longrightarrow> entry r idx = f (bentry a idx) (bentry b idx)"
  using assms by (auto simp: bop_def entry_build split: option.splits)



lemma shape_amap [simp]: "shape (amap f a) = shape a"
  by (simp add: amap_def)

lemma bentry_self: "valid_index (shape a) idx \<Longrightarrow> bentry a idx = entry a idx"
  by (simp add: bentry_def bidx_self)

section \<open>The export record\<close>

text \<open>
  C4. For a samples dictionary that holds the four summaries, \<^verbatim>\<open>_export2adata\<close> returns the
  record of the model identifier, the export date, the variable names and the observation names
  of \<^verbatim>\<open>self.adata\<close> (one name per gene and one per cell) and the four summaries as they
  are; the state, and with it the data object, is the one it was given.
\<close>

theorem export2adata_record:
  assumes "lookup smp ''post_sample_means'' = Inr means"
    and "lookup smp ''post_sample_stds'' = Inr stds"
    and "lookup smp ''post_sample_q05'' = Inr q05"
    and "lookup smp ''post_sample_q95'' = Inr q95"
  shows "export2adata ext smp s =
           (Inr [(''model_name'', UStr (module_class_name (self s))),
                 (''date'', UStr (date_today ext (world s))),
                 (''var_names'', UNames (self_var_names (self s))),
                 (''obs_names'', UNames (self_obs_names (self s))),
                 (''post_sample_means'', USummary means),
                 (''post_sample_stds'', USummary stds),
                 (''post_sample_q05'', USummary q05),
                 (''post_sample_q95'', USummary q95)], s)"
  using assms by (simp add: export2adata_def bindE_def)

theorem export2adata_record_witness:
  "export2adata example_ext (scenario_samples 0) example_state =
     (Inr [(''model_name'', UStr ''Cell2FateBaseModule''),
           (''date'', UStr ''2024-01-01''),
           (''var_names'', UNames [''g0'']),
           (''obs_names'', UNames [''c0'']),
           (''post_sample_means'', USummary (scenario_means 0)),
           (''post_sample_stds'', USummary scenario_stds),
           (''post_sample_q05'', USummary (scenario_means 0)),
           (''post_sample_q95'', USummary (scenario_means 0))], example_state)"
  using export2adata_record [of "scenario_samples 0" "scenario_means 0" scenario_stds
      "scenario_means 0" "scenario_means 0" example_ext example_state]
  by (simp add: lookup_def scenario_samples_def example_ext_def example_state_def example_model_def)

section \<open>The precondition of the reconstruction plots\<close>

lemma plot_segment_not_runtime: "fst (plot_segment i l k t s) \<noteq> Some (RuntimeError m)"
  by (auto simp: plot_segment_def bindE_def lookup_def slice3_def take_axis_def take_rows_def newaxis_rows_def
      split: sum.splits option.splits prod.splits if_splits count_matrix.splits elim!: index_rows.elims)

lemma exec_no_error:
  assumes "\<And>c s. c \<in> set cs \<Longrightarrow> fst (c s) \<noteq> Some e"
  shows "fst (exec cs s) \<noteq> Some e"
  using assms
proof (induction cs arbitrary: s)
  case Nil
  then show ?case by simp
next
  case (Cons c cs)
  obtain r s' where cs: "c s = (r, s')" by (cases "c s")
  have "r \<noteq> Some e" using Cons.prems[of c s] cs by simp
  then show ?case using Cons cs by (cases r) auto
qed

text \<open>
  C8. \<^verbatim>\<open>plot_QC\<close> raises the \<^verbatim>\<open>RuntimeError\<close> with its message exactly when
  \<^verbatim>\<open>self.samples\<close> does not exist. It then returns at once: the state is unchanged, so no
  subsample has been drawn and no expected counts have been computed. When \<^verbatim>\<open>self.samples\<close>
  exists no \<^verbatim>\<open>RuntimeError\<close> is raised.
\<close>

theorem plot_QC_precondition:
  "(samples (self s) = None \<longrightarrow>
      plot_QC ext sn n s = (Some (RuntimeError plot_QC_message), s)) \<and>
   (samples (self s) \<noteq> None \<longrightarrow>
      (\<forall>m. fst (plot_QC ext sn n s) \<noteq> Some (RuntimeError m)))"
proof (intro conjI impI allI)
  assume "samples (self s) = None"
  then show "plot_QC ext sn n s = (Some (RuntimeError plot_QC_message), s)"
    by (simp add: plot_QC_def)
next
  fix m
  assume "samples (self s) \<noteq> None"
  then obtain smp where smp: "samples (self s) = Some smp" by auto
  have seg: "\<And>i s'. fst (exec (generatePlots i) s') \<noteq> Some (RuntimeError m)"
    by (rule exec_no_error) (auto simp: generatePlots_def plot_segment_not_runtime)
  show "fst (plot_QC ext sn n s) \<noteq> Some (RuntimeError m)"
    using seg
    by (auto simp: plot_QC_def smp choice_stmt_def lookup_def multiplot_from_generator_def Let_def
        split: option.splits prod.splits sum.splits if_splits)
qed

theorem plot_QC_precondition_witness:
  "plot_QC example_ext ''means'' (Some 1000) example_state =
     (Some (RuntimeError plot_QC_message), example_state) \<and>
   fst (plot_QC example_ext ''means'' (Some 1000) sampled_state) \<noteq>
     Some (RuntimeError plot_QC_message)"
  using plot_QC_precondition [of example_state example_ext "''means''" "Some 1000"]
    plot_QC_precondition [of sampled_state example_ext "''means''" "Some 1000"]
  by (simp add: example_state_def sampled_state_def example_model_def)

section \<open>The draw of \<^verbatim>\<open>export_posterior\<close>\<close>

lemma keeps_draw_exec:
  assumes "\<And>c. c \<in> set cs \<Longrightarrow> keeps_draw c"
  shows "keeps_draw (exec cs)"
  unfolding keeps_draw_def
proof
  fix s
  show "samples (self (snd (exec cs s))) = samples (self s) \<and> prefix (trace s) (trace (snd (exec cs s)))"
    using assms
  proof (induction cs arbitrary: s)
    case Nil
    then show ?case by simp
  next
    case (Cons c cs)
    obtain r s' where cs: "c s = (r, s')" by (cases "c s")
    have k: "samples (self s') = samples (self s)" "prefix (trace s) (trace s')"
      using Cons.prems[of c] cs by (auto simp: keeps_draw_def dest: spec[of _ s])
    show ?case
    proof (cases r)
      case None
      have "samples (self (snd (exec cs s'))) = samples (self s') \<and>
            prefix (trace s') (trace (snd (exec cs s')))"
        by (rule Cons.IH) (simp add: Cons.prems)
      then show ?thesis using cs None k by (auto intro: prefix_order.trans)
    next
      case (Some e)
      then show ?thesis using cs k by simp
    qed
  qed
qed

lemma keeps_draw_assign:
  assumes "\<And>s s'. f s = Inr s' \<Longrightarrow> samples (self s') = samples (self s) \<and> trace s' = trace s"
  shows "keeps_draw (assign f)"
  using assms by (auto simp: keeps_draw_def assign_def split: sum.splits)

lemma keeps_draw_if:
  assumes "\<And>c. c \<in> set body \<Longrightarrow> keeps_draw c"
  shows "keeps_draw (if_stmt cond body)"
  using keeps_draw_exec[OF assms]
  by (auto simp: keeps_draw_def if_stmt_def split: sum.splits)

lemma keeps_draw_print: "keeps_draw (print_stmt m)"
  by (simp add: keeps_draw_def print_stmt_def)

lemma keeps_draw_obs: "keeps_draw (obs_stmt k st nm)"
  unfolding obs_stmt_def
  by (rule keeps_draw_assign) (auto simp: bindE_def split: sum.splits)

lemma keeps_draw_var: "keeps_draw (var_stmt k st nm)"
  unfolding var_stmt_def
  by (rule keeps_draw_assign) (auto simp: bindE_def split: sum.splits)

lemma keeps_draw_layer: "keeps_draw (layer_stmt k e)"
  unfolding layer_stmt_def
  by (rule keeps_draw_assign) (auto simp: bindE_def split: sum.splits)

lemma keeps_draw_post_samples: "keeps_draw (post_samples_stmt slot)"
  unfolding post_samples_stmt_def
  by (rule keeps_draw_assign) (auto simp: bindE_def split: sum.splits uns_value.splits)

lemma keeps_draw_velocity_posterior: "keeps_draw velocity_posterior_stmt"
  unfolding velocity_posterior_stmt_def
  by (rule keeps_draw_assign) (auto simp: bindE_def split: sum.splits)

lemma keeps_draw_normalize: "keeps_draw normalize_stmt"
  by (auto simp: keeps_draw_def normalize_stmt_def split: sum.splits prod.splits)

lemma keeps_draw_export: "keeps_draw (export_stmt ext slot)"
  by (auto simp: keeps_draw_def export_stmt_def export2adata_def split: sum.splits prod.splits)

lemma keeps_draw_annotate:
  "c \<in> set (annotate_stmts kw slot fvp nrm) \<Longrightarrow> keeps_draw c"
  by (auto simp: annotate_stmts_def keeps_draw_obs keeps_draw_var keeps_draw_layer
      intro!: keeps_draw_if keeps_draw_print keeps_draw_post_samples
        keeps_draw_velocity_posterior keeps_draw_normalize)

lemma keeps_draw_tail:
  "keeps_draw (exec (export_stmt ext slot # annotate_stmts kw slot fvp nrm))"
  by (rule keeps_draw_exec) (auto simp: keeps_draw_export keeps_draw_annotate)

lemma export_posterior_unfold:
  "export_posterior ext a slot fvp nrm s =
     (case sample_stmt ext (as_dict a) s of
        (Some e, s') \<Rightarrow> (Some e, s')
      | (None, s') \<Rightarrow> exec (export_stmt ext slot # annotate_stmts (as_dict a) slot fvp nrm) s')"
  by (simp add: export_posterior_def Let_def split: prod.splits option.splits)

text \<open>
  C10. Every call of \<^verbatim>\<open>export_posterior\<close> calls \<^verbatim>\<open>sample_posterior\<close> first. When the
  sampler returns, \<^verbatim>\<open>self.samples\<close> is bound to what it returned, and the whole result of
  the call is the same whatever \<^verbatim>\<open>self.samples\<close> held before: samples cached by an earlier
  call are never used.
\<close>

theorem export_posterior_resamples:
  "prefix (trace s @ [CallSamplePosterior (as_dict a)])
     (trace (snd (export_posterior ext a slot fvp nrm s))) \<and>
   (\<forall>smp w. sample_posterior ext (as_dict a) (world s) = (Inr smp, w) \<longrightarrow>
      samples (self (snd (export_posterior ext a slot fvp nrm s))) = Some smp \<and>
      export_posterior ext a slot fvp nrm (s\<lparr>self := (self s)\<lparr>samples := cached\<rparr>\<rparr>) =
        export_posterior ext a slot fvp nrm s)"
proof (intro conjI allI impI)
  let ?tail = "exec (export_stmt ext slot # annotate_stmts (as_dict a) slot fvp nrm)"
  have k: "\<And>t. samples (self (snd (?tail t))) = samples (self t) \<and>
             prefix (trace t) (trace (snd (?tail t)))"
    using keeps_draw_tail[of ext slot "as_dict a" fvp nrm] unfolding keeps_draw_def by blast
  obtain r w0 where sp: "sample_posterior ext (as_dict a) (world s) = (r, w0)"
    by (cases "sample_posterior ext (as_dict a) (world s)")
  show "prefix (trace s @ [CallSamplePosterior (as_dict a)])
          (trace (snd (export_posterior ext a slot fvp nrm s)))"
  proof (cases r)
    case (Inl msg)
    then show ?thesis using sp by (simp add: export_posterior_unfold sample_stmt_def)
  next
    case (Inr smp)
    then show ?thesis
      using sp k[of "s\<lparr>world := w0, trace := trace s @ [CallSamplePosterior (as_dict a)],
                       self := (self s)\<lparr>samples := Some smp\<rparr>\<rparr>"]
      by (simp add: export_posterior_unfold sample_stmt_def del: exec.simps)
  qed
  fix smp w
  assume a: "sample_posterior ext (as_dict a) (world s) = (Inr smp, w)"
  let ?s1 = "s\<lparr>world := w, trace := trace s @ [CallSamplePosterior (as_dict a)],
               self := (self s)\<lparr>samples := Some smp\<rparr>\<rparr>"
  have st: "sample_stmt ext (as_dict a) s = (None, ?s1)"
    using a by (simp add: sample_stmt_def)
  have st': "sample_stmt ext (as_dict a) (s\<lparr>self := (self s)\<lparr>samples := cached\<rparr>\<rparr>) = (None, ?s1)"
    using a by (simp add: sample_stmt_def)
  have ep: "export_posterior ext a slot fvp nrm s = ?tail ?s1"
    by (simp add: export_posterior_unfold st)
  have ep': "export_posterior ext a slot fvp nrm (s\<lparr>self := (self s)\<lparr>samples := cached\<rparr>\<rparr>) = ?tail ?s1"
    by (simp only: export_posterior_unfold st') simp
  show "samples (self (snd (export_posterior ext a slot fvp nrm s))) = Some smp"
    using k[of ?s1] by (simp add: ep)
  show "export_posterior ext a slot fvp nrm (s\<lparr>self := (self s)\<lparr>samples := cached\<rparr>\<rparr>) =
          export_posterior ext a slot fvp nrm s"
    by (simp add: ep ep')
qed

theorem export_posterior_resamples_witness:
  "prefix [CallSamplePosterior []]
     (trace (snd (export_posterior example_ext PyNone ''mod'' False False example_state))) \<and>
   samples (self (snd (export_posterior example_ext PyNone ''mod'' False False example_state))) =
     Some (scenario_samples 0) \<and>
   export_posterior example_ext PyNone ''mod'' False False sampled_state =
     export_posterior example_ext PyNone ''mod'' False False example_state"
  using export_posterior_resamples [of example_state PyNone example_ext "''mod''" False False
      "Some (scenario_samples 0)"]
  by (simp add: example_ext_def example_state_def sampled_state_def)

text \<open>
  C9. When \<^verbatim>\<open>sample_kwargs\<close> is omitted, is not a dictionary or has no key
  \<^verbatim>\<open>'return_samples'\<close> (in each case the dictionary used has no such key), and the sampler
  returns samples with the four summaries, \<^verbatim>\<open>export_posterior\<close> raises
  \<^verbatim>\<open>KeyError('return_samples')\<close> at line 240. By then \<^verbatim>\<open>self.samples\<close> and
  \<^verbatim>\<open>adata.uns[export_slot]\<close> have been assigned, and they stay assigned.
\<close>

theorem export_posterior_missing_return_samples:
  assumes "map_of (as_dict a) ''return_samples'' = None"
    and "sample_posterior ext (as_dict a) (world s) = (Inr smp, w)"
    and "lookup smp ''post_sample_means'' = Inr means"
    and "lookup smp ''post_sample_stds'' = Inr stds"
    and "lookup smp ''post_sample_q05'' = Inr q05"
    and "lookup smp ''post_sample_q95'' = Inr q95"
  shows "export_posterior ext a slot fvp nrm s =
     (Some (KeyError ''return_samples''),
      s\<lparr>world := w,
        trace := trace s @ [CallSamplePosterior (as_dict a)],
        self := (self s)\<lparr>samples := Some smp\<rparr>,
        adata := (adata s)\<lparr>uns := AList.update slot
          (URecord [(''model_name'', UStr (module_class_name (self s))),
                    (''date'', UStr (date_today ext w)),
                    (''var_names'', UNames (self_var_names (self s))),
                    (''obs_names'', UNames (self_obs_names (self s))),
                    (''post_sample_means'', USummary means),
                    (''post_sample_stds'', USummary stds),
                    (''post_sample_q05'', USummary q05),
                    (''post_sample_q95'', USummary q95)])
          (uns (adata s))\<rparr>\<rparr>)"
proof -
  let ?s1 = "s\<lparr>world := w, trace := trace s @ [CallSamplePosterior (as_dict a)],
               self := (self s)\<lparr>samples := Some smp\<rparr>\<rparr>"
  have st: "sample_stmt ext (as_dict a) s = (None, ?s1)"
    using assms(2) by (simp add: sample_stmt_def)
  have ex: "export2adata ext smp ?s1 = (Inr [(''model_name'', UStr (module_class_name (self s))),
                    (''date'', UStr (date_today ext w)),
                    (''var_names'', UNames (self_var_names (self s))),
                    (''obs_names'', UNames (self_obs_names (self s))),
                    (''post_sample_means'', USummary means),
                    (''post_sample_stds'', USummary stds),
                    (''post_sample_q05'', USummary q05),
                    (''post_sample_q95'', USummary q95)], ?s1)"
    using assms(3-6) by (simp add: export2adata_def bindE_def)
  show ?thesis
    using assms(1)
    by (simp add: export_posterior_unfold st export_stmt_def self_samples_def ex annotate_stmts_def
        if_stmt_def return_samples_cond_def lookup_def bindE_def)
qed

theorem export_posterior_missing_return_samples_witness:
  "export_posterior example_ext PyNone ''mod'' False True example_state =
     (Some (KeyError ''return_samples''),
      example_state\<lparr>world := 1,
        trace := [CallSamplePosterior []],
        self := example_model\<lparr>samples := Some (scenario_samples 0)\<rparr>,
        adata := example_adata\<lparr>uns :=
          [(''mod'', URecord [(''model_name'', UStr ''Cell2FateBaseModule''),
                    (''date'', UStr ''2024-01-01''),
                    (''var_names'', UNames [''g0'']),
                    (''obs_names'', UNames [''c0'']),
                    (''post_sample_means'', USummary (scenario_means 0)),
                    (''post_sample_stds'', USummary scenario_stds),
                    (''post_sample_q05'', USummary (scenario_means 0)),
                    (''post_sample_q95'', USummary (scenario_means 0))])]\<rparr>\<rparr>)"
  using export_posterior_missing_return_samples [of PyNone example_ext example_state
      "scenario_samples 0" "Suc 0" "scenario_means 0" scenario_stds "scenario_means 0"
      "scenario_means 0" "''mod''" False True]
  by (simp add: lookup_def scenario_samples_def example_ext_def example_state_def example_model_def
      example_adata_def)

section \<open>The layers written by \<^verbatim>\<open>export_posterior\<close>\<close>

lemma exec_append:
  "exec (xs @ ys) s =
     (case exec xs s of (Some e, s') \<Rightarrow> (Some e, s') | (None, s') \<Rightarrow> exec ys s')"
proof (induction xs arbitrary: s)
  case Nil
  then show ?case by simp
next
  case (Cons c xs)
  then show ?case by (cases "c s") (auto split: option.splits)
qed

lemma keeps_layer_exec:
  assumes "\<And>c. c \<in> set cs \<Longrightarrow> keeps_layer k c"
  shows "keeps_layer k (exec cs)"
  unfolding keeps_layer_def
proof
  fix s
  show "map_of (layers (adata (snd (exec cs s)))) k = map_of (layers (adata s)) k"
    using assms
  proof (induction cs arbitrary: s)
    case Nil
    then show ?case by simp
  next
    case (Cons c cs)
    obtain r s' where cs: "c s = (r, s')" by (cases "c s")
    have k: "map_of (layers (adata s')) k = map_of (layers (adata s)) k"
      using Cons.prems[of c] cs by (auto simp: keeps_layer_def dest: spec[of _ s])
    show ?case
    proof (cases r)
      case None
      have "map_of (layers (adata (snd (exec cs s')))) k = map_of (layers (adata s')) k"
        by (rule Cons.IH) (simp add: Cons.prems)
      then show ?thesis using cs None k by simp
    next
      case (Some e)
      then show ?thesis using cs k by simp
    qed
  qed
qed

lemma keeps_layer_if:
  assumes "\<And>c. c \<in> set body \<Longrightarrow> keeps_layer k c"
  shows "keeps_layer k (if_stmt cond body)"
  using keeps_layer_exec[OF assms]
  by (auto simp: keeps_layer_def if_stmt_def split: sum.splits)

lemma keeps_layer_print: "keeps_layer k (print_stmt m)"
  by (simp add: keeps_layer_def print_stmt_def)

lemma keeps_layer_velocity_posterior: "keeps_layer k velocity_posterior_stmt"
  by (auto simp: keeps_layer_def velocity_posterior_stmt_def assign_def bindE_def split: sum.splits)

lemma keeps_layer_set_layer:
  "set_layer ad k' v = Inr ad' \<Longrightarrow> k \<noteq> k' \<Longrightarrow> map_of (layers ad') k = map_of (layers ad) k"
  by (auto simp: set_layer_def update_conv' split: if_splits)

lemma keeps_layer_layer_stmt: "k \<noteq> k' \<Longrightarrow> keeps_layer k (layer_stmt k' e)"
  by (auto simp: keeps_layer_def layer_stmt_def assign_def bindE_def keeps_layer_set_layer
      split: sum.splits)

lemma keeps_layer_normalize:
  assumes "k \<noteq> ''unspliced_norm''" and "k \<noteq> ''spliced_norm''"
  shows "keeps_layer k normalize_stmt"
  using assms
  by (auto simp: keeps_layer_def normalize_stmt_def normalize_def store_shifted_def bindE_def
      Let_def keeps_layer_set_layer split: sum.splits prod.splits)

lemma layer_stmt_None:
  assumes "layer_stmt k e s = (None, s')" and "samples (self s) = Some smp"
  shows "\<exists>v. e smp = Inr v \<and> map_of (layers (adata s')) k = Some v \<and>
             take 2 (shape v) = [n_obs (adata s), n_vars (adata s)] \<and>
             samples (self s') = Some smp \<and>
             (\<forall>k'. k' \<noteq> k \<longrightarrow> map_of (layers (adata s')) k' = map_of (layers (adata s)) k') \<and>
             obs_names (adata s') = obs_names (adata s) \<and> var_names (adata s') = var_names (adata s)"
  using assms
  by (auto simp: layer_stmt_def assign_def bindE_def self_samples_def set_layer_def update_conv'
      split: sum.splits if_splits)

text \<open>The layers written by a call that returns.\<close>

lemma annotate_split:
  "annotate_stmts kw slot fvp nrm =
     take 17 (annotate_stmts kw slot fvp nrm) @
     [layer_stmt ''velocity'' velocity_expr, layer_stmt ''velocity_sd'' velocity_sd_expr] @
     [if_stmt (\<lambda>s. bindE (return_samples_cond kw) (\<lambda>b. Inr (b \<and> fvp)))
        [print_stmt WarnVelocityPosterior, velocity_posterior_stmt],
      if_stmt (\<lambda>s. Inr nrm) [print_stmt InfoNormalize, normalize_stmt]]"
  by (simp add: annotate_stmts_def)

lemma export_posterior_layers:
  assumes "export_posterior ext a slot fvp nrm s = (None, s')"
  shows "\<exists>smp v sd. samples (self s') = Some smp \<and>
           velocity_expr smp = Inr v \<and> velocity_sd_expr smp = Inr sd \<and>
           map_of (layers (adata s')) ''velocity'' = Some v \<and>
           map_of (layers (adata s')) ''velocity_sd'' = Some sd"
proof -
  let ?pre = "take 17 (annotate_stmts (as_dict a) slot fvp nrm)"
  let ?post = "[if_stmt (\<lambda>s. bindE (return_samples_cond (as_dict a)) (\<lambda>b. Inr (b \<and> fvp)))
        [print_stmt WarnVelocityPosterior, velocity_posterior_stmt],
      if_stmt (\<lambda>s. Inr nrm) [print_stmt InfoNormalize, normalize_stmt]]"
  obtain r0 s0 where s0: "sample_stmt ext (as_dict a) s = (r0, s0)"
    by (cases "sample_stmt ext (as_dict a) s")
  have r0: "r0 = None" and tail: "exec (export_stmt ext slot # annotate_stmts (as_dict a) slot fvp nrm) s0 = (None, s')"
    using assms s0 by (auto simp: export_posterior_unfold split: option.splits)
  obtain smp where smp: "samples (self s0) = Some smp"
    using s0 r0 by (auto simp: sample_stmt_def Let_def split: prod.splits sum.splits)
  obtain r1 s1 where s1: "export_stmt ext slot s0 = (r1, s1)"
    by (cases "export_stmt ext slot s0")
  have r1: "r1 = None" and tail1: "exec (annotate_stmts (as_dict a) slot fvp nrm) s1 = (None, s')"
    using tail s1 by (auto split: option.splits)
  have smp1: "samples (self s1) = Some smp"
    using keeps_draw_export[of ext slot] s1 smp unfolding keeps_draw_def by (metis snd_conv)
  obtain r2 s2 where s2: "exec ?pre s1 = (r2, s2)" by (cases "exec ?pre s1")
  have split: "exec (?pre @ [layer_stmt ''velocity'' velocity_expr, layer_stmt ''velocity_sd'' velocity_sd_expr] @ ?post) s1 = (None, s')"
    using tail1 annotate_split[of "as_dict a" slot fvp nrm] by metis
  have r2: "r2 = None"
    and tail2: "exec ([layer_stmt ''velocity'' velocity_expr, layer_stmt ''velocity_sd'' velocity_sd_expr] @ ?post) s2 = (None, s')"
    using split s2 by (auto simp only: exec_append split: option.splits prod.splits)
  have "keeps_draw (exec ?pre)"
    by (rule keeps_draw_exec) (auto dest: in_set_takeD keeps_draw_annotate)
  then have smp2: "samples (self s2) = Some smp"
    using s2 smp1 unfolding keeps_draw_def by (metis snd_conv)
  obtain r3 s3 where s3: "layer_stmt ''velocity'' velocity_expr s2 = (r3, s3)"
    by (cases "layer_stmt ''velocity'' velocity_expr s2")
  obtain r4 s4 where s4: "layer_stmt ''velocity_sd'' velocity_sd_expr s3 = (r4, s4)"
    by (cases "layer_stmt ''velocity_sd'' velocity_sd_expr s3")
  have r3: "r3 = None" and r4: "r4 = None" and tail4: "exec ?post s4 = (None, s')"
    using tail2 s3 s4 by (auto simp del: exec.simps simp add: exec.simps(2)[of "layer_stmt k e" for k e] split: option.splits)
  from layer_stmt_None[OF s3[unfolded r3] smp2] obtain v where
    v: "velocity_expr smp = Inr v" "map_of (layers (adata s3)) ''velocity'' = Some v"
       "samples (self s3) = Some smp" by auto
  from layer_stmt_None[OF s4[unfolded r4] v(3)] obtain sd where
    sd: "velocity_sd_expr smp = Inr sd" "map_of (layers (adata s4)) ''velocity_sd'' = Some sd"
        "samples (self s4) = Some smp"
        "map_of (layers (adata s4)) ''velocity'' = map_of (layers (adata s3)) ''velocity''" by auto
  have kd: "keeps_draw (exec ?post)"
    by (rule keeps_draw_exec)
       (auto intro!: keeps_draw_if keeps_draw_print keeps_draw_velocity_posterior keeps_draw_normalize)
  have kl: "keeps_layer ''velocity'' (exec ?post)" "keeps_layer ''velocity_sd'' (exec ?post)"
    by (rule keeps_layer_exec,
        auto intro!: keeps_layer_if keeps_layer_print keeps_layer_velocity_posterior keeps_layer_normalize)+
  have "samples (self s') = Some smp"
    using kd tail4 sd(3) unfolding keeps_draw_def by (metis snd_conv)
  moreover have "map_of (layers (adata s')) ''velocity'' = Some v"
    using kl(1) tail4 sd(4) v(2) unfolding keeps_layer_def by (metis snd_conv)
  moreover have "map_of (layers (adata s')) ''velocity_sd'' = Some sd"
    using kl(2) tail4 sd(2) unfolding keeps_layer_def by (metis snd_conv)
  ultimately show ?thesis using v(1) sd(1) by blast
qed

section \<open>Velocity and its uncertainty\<close>

lemma valid_index_Cons [simp]:
  "valid_index (d # ds) (i # js) = (i < d \<and> valid_index ds js)"
  "valid_index [] [] = True"
  "valid_index [] (i # js) = False"
  "valid_index (d # ds) [] = False"
  by (simp_all add: valid_index_def)

lemma take_axis_Inr:
  assumes "take_axis ax j a = Inr r"
  shows "shape r = take ax (shape a) @ drop (Suc ax) (shape a)"
    and "valid_index (shape r) idx \<Longrightarrow> entry r idx = entry a (take ax idx @ j # drop ax idx)"
  using assms by (auto simp: take_axis_def entry_build split: if_splits)

lemma slice3_entry:
  assumes "slice3 k mu = Inr m" and "shape mu = [C, G, K]" and "c < C" and "g < G"
  shows "shape m = [C, G]" and "entry m [c, g] = entry mu [c, g, k]"
proof -
  have t: "take_axis 2 k mu = Inr m"
    using assms(1,2) by (simp add: slice3_def)
  show sh: "shape m = [C, G]"
    using take_axis_Inr(1)[OF t] assms(2) by simp
  show "entry m [c, g] = entry mu [c, g, k]"
    using take_axis_Inr(2)[OF t, of "[c, g]"] sh assms(3,4) by simp
qed

lemma bentry_rate:
  assumes "per_gene G beta" and "ellipsis_last 0 beta = Inr b" and "g < G"
  shows "bentry b [c, g] = data beta ! g"
    and "broadcast_shapes (shape b) [C, G] = Some [C, G]"
proof -
  consider (a) "shape beta = [G, 1]" | (b) "shape beta = [1, G, 1]" | (c) "G = 1" "shape beta = [1]"
    using assms(1) by (auto simp: per_gene_def)
  then have "bentry b [c, g] = data beta ! g \<and> broadcast_shapes (shape b) [C, G] = Some [C, G]"
  proof cases
    case a
    then have b: "b = build [G] (\<lambda>idx. entry beta (take 1 idx @ 0 # drop 1 idx))"
      using assms(2) by (auto simp: ellipsis_last_def take_axis_def numeral_2_eq_2)
    show ?thesis using assms(3) a
      by (simp add: b bentry_def bidx_def entry_build broadcast_shapes_def)
         (auto simp: entry_def)
  next
    case b
    then have b: "b = build [1, G] (\<lambda>idx. entry beta (take 2 idx @ 0 # drop 2 idx))"
      using assms(2) by (auto simp: ellipsis_last_def take_axis_def numeral_2_eq_2)
    show ?thesis using assms(3) \<open>shape beta = [1, G, 1]\<close>
      by (simp add: b bentry_def bidx_def entry_build broadcast_shapes_def)
         (auto simp: entry_def)
  next
    case c
    then have b: "b = build [] (\<lambda>idx. entry beta (take 0 idx @ 0 # drop 0 idx))"
      using assms(2) by (auto simp: ellipsis_last_def take_axis_def numeral_2_eq_2)
    show ?thesis using assms(3) c
      by (simp add: b bentry_def bidx_def entry_build broadcast_shapes_def)
         (auto simp: entry_def)
  qed
  then show "bentry b [c, g] = data beta ! g" and "broadcast_shapes (shape b) [C, G] = Some [C, G]"
    by auto
qed


lemma bindE_Inr: "bindE r f = Inr y \<Longrightarrow> \<exists>x. r = Inr x \<and> f x = Inr y"
  by (cases r) (simp_all add: bindE_def)


lemma velocity_term:
  assumes "rate smp st nm = Inr b" and "param smp st nm = Inr beta" and "per_gene G beta"
    and "mu_component smp st k = Inr m" and "param smp st ''mu_RNAvelocity'' = Inr mu"
    and "shape mu = [C, G, K]" and "np_mul b m = Inr bm" and "c < C" and "g < G"
  shows "shape bm = [C, G]" and "entry bm [c, g] = fl_mul (data beta ! g) (entry mu [c, g, k])"
proof -
  have el: "ellipsis_last 0 beta = Inr b"
    using assms(1,2) by (simp add: rate_def bindE_def)
  have sl: "slice3 k mu = Inr m"
    using assms(4,5) by (simp add: mu_component_def bindE_def)
  note m = slice3_entry[OF sl assms(6,8,9)]
  note b = bentry_rate(1)[OF assms(3) el assms(9), of c] bentry_rate(2)[OF assms(3) el assms(9), of C]
  have bop: "bop fl_mul b m = Inr bm" using assms(7) by (simp add: np_mul_def)
  show sh: "shape bm = [C, G]"
    using bop_shape_entry(1)[OF bop] b(2) m(1) by simp
  have v: "valid_index (shape bm) [c, g]" using sh assms(8,9) by simp
  have vm: "valid_index (shape m) [c, g]" using m(1) assms(8,9) by simp
  show "entry bm [c, g] = fl_mul (data beta ! g) (entry mu [c, g, k])"
    using bop_shape_entry(2)[OF bop v] b(1) m(2) bentry_self[OF vm] by simp
qed

lemma velocity_expr_entry:
  assumes "velocity_expr smp = Inr v"
    and "param smp ''post_sample_means'' ''beta_g'' = Inr beta"
    and "param smp ''post_sample_means'' ''gamma_g'' = Inr gamma"
    and "param smp ''post_sample_means'' ''mu_RNAvelocity'' = Inr mu"
    and "per_gene G beta" and "per_gene G gamma" and "shape mu = [C, G, K]"
    and "c < C" and "g < G"
  shows "shape v = [C, G] \<and>
         entry v [c, g] = fl_sub (fl_mul (data beta ! g) (entry mu [c, g, 0]))
                                 (fl_mul (data gamma ! g) (entry mu [c, g, 1]))"
proof -
  from assms(1) obtain b m0 bm gm0 m1 gm where
    b: "rate smp ''post_sample_means'' ''beta_g'' = Inr b"
    and m0: "mu_component smp ''post_sample_means'' 0 = Inr m0"
    and bm: "np_mul b m0 = Inr bm"
    and g0: "rate smp ''post_sample_means'' ''gamma_g'' = Inr gm0"
    and m1: "mu_component smp ''post_sample_means'' 1 = Inr m1"
    and gm: "np_mul gm0 m1 = Inr gm"
    and v: "np_sub bm gm = Inr v"
    unfolding velocity_expr_def by (blast dest: bindE_Inr)
  note t1 = velocity_term[OF b assms(2,5) m0 assms(4,7) bm assms(8,9)]
  note t2 = velocity_term[OF g0 assms(3,6) m1 assms(4,7) gm assms(8,9)]
  have bop: "bop fl_sub bm gm = Inr v" using v by (simp add: np_sub_def)
  have sh: "shape v = [C, G]"
    using bop_shape_entry(1)[OF bop] t1(1) t2(1) by (simp add: broadcast_shapes_def)
  have vv: "valid_index (shape v) [c, g]" using sh assms(8,9) by simp
  have v1: "valid_index (shape bm) [c, g]" using t1(1) assms(8,9) by simp
  have v2: "valid_index (shape gm) [c, g]" using t2(1) assms(8,9) by simp
  show ?thesis
    using bop_shape_entry(2)[OF bop vv] bentry_self[OF v1] bentry_self[OF v2] t1(2) t2(2) sh
    by simp
qed







section \<open>Evaluation of the examples\<close>

lemmas np_defs = bindE_def lookup_def fl_sub_def fl_square_def fl_min_def entry_def build_def flatten_def
  take_axis_def ellipsis_last_def slice3_def first3_def broadcast_shapes_def bidx_def bentry_def bop_def
  np_add_def np_sub_def np_mul_def np_div_def amap_def np_square_def np_sqrt_def amin_def sub_scalar_def
  get_dummies_def fl_sum_def np_dot_def take_rows_def newaxis_rows_def

lemmas prog_defs = n_obs_def n_vars_def set_obs_def set_var_def set_layer_def assign_def if_stmt_def print_stmt_def
  export2adata_def param_def self_samples_def rate_def mu_component_def velocity_expr_def rate_sq_def mu_sq_def
  second_moment_rate_def second_moment_mu_def velocity_sd_expr_def velocity_posterior_expr_def
  corrected_counts_def store_shifted_def normalize_def sample_stmt_def export_stmt_def return_samples_cond_def
  post_samples_stmt_def obs_stmt_def var_stmt_def layer_stmt_def velocity_posterior_stmt_def normalize_stmt_def
  export_posterior_def annotate_stmts_def choice_stmt_def plot_segment_def generatePlots_def multiplot_from_generator_def
  plot_QC_message_def plot_QC_def

lemmas example_defs = cube_def vec_def scenario_means_def scenario_stds_def scenario_samples_def example_ext_def
  example_registry_def example_model_def example_adata_def example_state_def sampled_state_def
  exported_state_def two_gene_mu_def two_gene_means_def two_gene_stds_def two_gene_samples_def
  two_gene_ext_def two_gene_state_def

lemma example_export:
  "export_posterior example_ext (PyDict [(''return_samples'', KwBool False)]) ''mod'' False False
     example_state = (None, exported_state)"
  by (simp add: np_defs prog_defs example_defs)

lemma two_gene_export:
  "export_posterior two_gene_ext (PyDict [(''return_samples'', KwBool False)]) ''mod'' False False
     two_gene_state =
   (None,
    two_gene_state
      \<lparr>self := example_model\<lparr>self_var_names := [''g0'', ''g1''], samples := Some two_gene_samples\<rparr>,
       adata := example_adata
         \<lparr>var_names := [''g0'', ''g1''],
          obs := [(''latent_time_mean'', vec [0]), (''latent_time_sd'', vec [0]),
                  (''normalization_factor_unspliced_mean'', vec [2]),
                  (''normalization_factor_unspliced_sd'', vec [0]),
                  (''normalization_factor_spliced_mean'', vec [4]),
                  (''normalization_factor_spliced_sd'', vec [0])],
          var := [(''transcription_rate_mean'', vec [1, 1]), (''transcription_rate_sd'', vec [0, 0]),
                  (''splicing_rate_mean'', vec [2, 4]), (''splicing_rate_sd'', vec [0, 0]),
                  (''degredation_rate_mean'', vec [1, 1]), (''degredation_rate_sd'', vec [0, 0]),
                  (''switchON_time_mean'', vec [0, 0]), (''switchON_time_sd'', vec [0, 0]),
                  (''switchOFF_time_mean'', vec [1, 1]), (''switchOFF_time_sd'', vec [0, 0])],
          uns := [(''mod'', URecord
                    [(''model_name'', UStr ''Cell2FateBaseModule''),
                     (''date'', UStr ''2024-01-01''),
                     (''var_names'', UNames [''g0'', ''g1'']),
                     (''obs_names'', UNames [''c0'']),
                     (''post_sample_means'', USummary two_gene_means),
                     (''post_sample_stds'', USummary two_gene_stds),
                     (''post_sample_q05'', USummary two_gene_means),
                     (''post_sample_q95'', USummary two_gene_means)])],
          layers := [(''velocity'', NDArray [1, 2] [Fin 5, Fin 5]),
                     (''velocity_sd'', NDArray [1, 2] [Fin 0, Fin 0])]\<rparr>,
       world := 1,
       trace := [CallSamplePosterior [(''return_samples'', KwBool False)]]\<rparr>)"
  by (simp add: np_defs prog_defs example_defs eval_nat_numeral)

section \<open>The velocity layer\<close>

text \<open>
  C1. After a call of \<^verbatim>\<open>export_posterior\<close> that returns, \<^verbatim>\<open>adata.layers['velocity']\<close>
  holds at cell \<open>c\<close> and gene \<open>g\<close> the value
  \<^verbatim>\<open>beta_g[g] * mu_RNAvelocity[c,g,0] - gamma_g[g] * mu_RNAvelocity[c,g,1]\<close> of the posterior
  means, where \<^verbatim>\<open>beta_g\<close> and \<^verbatim>\<open>gamma_g\<close> have a per-gene shape (a last axis of length
  1 after the gene axis, or one gene) and \<^verbatim>\<open>beta_g[g]\<close> is entry \<open>g\<close> of the flattened array.
  In the scenario of one cell and one gene the entry is 5.
\<close>

theorem velocity_layer_entry:
  assumes "export_posterior ext a slot fvp nrm s = (None, s')"
    and "samples (self s') = Some smp"
    and "param smp ''post_sample_means'' ''beta_g'' = Inr beta"
    and "param smp ''post_sample_means'' ''gamma_g'' = Inr gamma"
    and "param smp ''post_sample_means'' ''mu_RNAvelocity'' = Inr mu"
    and "per_gene G beta" and "per_gene G gamma" and "shape mu = [C, G, K]"
    and "c < C" and "g < G"
  shows "\<exists>v. map_of (layers (adata s')) ''velocity'' = Some v \<and> shape v = [C, G] \<and>
             entry v [c, g] = fl_sub (fl_mul (data beta ! g) (entry mu [c, g, 0]))
                                     (fl_mul (data gamma ! g) (entry mu [c, g, 1]))"
proof -
  from export_posterior_layers[OF assms(1)] assms(2) obtain v where
    v: "velocity_expr smp = Inr v" "map_of (layers (adata s')) ''velocity'' = Some v"
    by auto
  show ?thesis
    using velocity_expr_entry[OF v(1) assms(3-10)] v(2) by blast
qed

theorem velocity_layer_entry_witness:
  "\<exists>v. map_of (layers (adata exported_state)) ''velocity'' = Some v \<and> shape v = [1, 1] \<and>
       entry v [0, 0] = Fin 5"
  using velocity_layer_entry [OF example_export, of "scenario_samples 0" "vec [2]" "vec [1]"
      "NDArray [1, 1, 2] [Fin 3, Fin 1]" 1 1 2 0 0]
  by (simp add: exported_state_def example_model_def param_def lookup_def bindE_def
      scenario_samples_def scenario_means_def per_gene_def vec_def entry_def fl_sub_def)

text \<open>
  The statement of C1 for every posterior-means mapping fails for rates that are arrays of one
  axis with two genes: \<^verbatim>\<open>beta_g[..., 0]\<close> is then the number \<^verbatim>\<open>beta_g[0]\<close>, which is
  used for both genes. The call returns, the velocity of gene 1 is 5, and the value the claim
  states is \<^verbatim>\<open>4*3 - 1*1 = 11\<close>.
\<close>

theorem velocity_one_axis_counterexample:
  "fst (export_posterior two_gene_ext (PyDict [(''return_samples'', KwBool False)]) ''mod'' False
          False two_gene_state) = None \<and>
   map_of (layers (adata (snd (export_posterior two_gene_ext
       (PyDict [(''return_samples'', KwBool False)]) ''mod'' False False two_gene_state))))
     ''velocity'' = Some (NDArray [1, 2] [Fin 5, Fin 5]) \<and>
   entry (NDArray [1, 2] [Fin 5, Fin 5]) [0, 1] = Fin 5 \<and>
   param two_gene_samples ''post_sample_means'' ''beta_g'' = Inr (vec [2, 4]) \<and>
   param two_gene_samples ''post_sample_means'' ''gamma_g'' = Inr (vec [1, 1]) \<and>
   param two_gene_samples ''post_sample_means'' ''mu_RNAvelocity'' = Inr two_gene_mu \<and>
   fl_sub (fl_mul (entry (vec [2, 4]) [1]) (entry two_gene_mu [0, 1, 0]))
          (fl_mul (entry (vec [1, 1]) [1]) (entry two_gene_mu [0, 1, 1])) = Fin 11"
  by (simp add: two_gene_export)
     (simp add: param_def lookup_def bindE_def entry_def fl_sub_def two_gene_samples_def
        two_gene_means_def two_gene_mu_def vec_def)

section \<open>The uncertainty layer\<close>



section \<open>The annotations as a function of the draw\<close>

lemma preserves_agree_exec:
  assumes "\<And>c. c \<in> set cs \<Longrightarrow> preserves_agree c"
  shows "preserves_agree (exec cs)"
  unfolding preserves_agree_def
proof (intro allI impI)
  fix s t :: "'a state"
  assume "agree s t"
  then show "fst (exec cs s) = fst (exec cs t) \<and> agree (snd (exec cs s)) (snd (exec cs t))"
    using assms
  proof (induction cs arbitrary: s t)
    case Nil
    then show ?case by simp
  next
    case (Cons c cs)
    obtain r s' where cs: "c s = (r, s')" by (cases "c s")
    obtain r' t' where ct: "c t = (r', t')" by (cases "c t")
    have "preserves_agree c" using Cons.prems(2) by simp
    then have k: "r = r'" "agree s' t'"
      using Cons.prems(1) cs ct unfolding preserves_agree_def by (metis fst_conv snd_conv)+
    show ?case
    proof (cases r)
      case None
      have "fst (exec cs s') = fst (exec cs t') \<and> agree (snd (exec cs s')) (snd (exec cs t'))"
        by (rule Cons.IH[OF k(2)]) (simp add: Cons.prems)
      then show ?thesis using cs ct None k by simp
    next
      case (Some e)
      then show ?thesis using cs ct k by simp
    qed
  qed
qed

lemma preserves_agree_assign:
  assumes "\<And>s t. agree s t \<Longrightarrow>
             (case f s of Inl e \<Rightarrow> f t = Inl e
              | Inr s' \<Rightarrow> (\<exists>t'. f t = Inr t' \<and> agree s' t'))"
  shows "preserves_agree (assign f)"
  unfolding preserves_agree_def
proof (intro allI impI)
  fix s t :: "'a state"
  assume a: "agree s t"
  show "fst (assign f s) = fst (assign f t) \<and> agree (snd (assign f s)) (snd (assign f t))"
    using assms[OF a] a by (cases "f s") (auto simp: assign_def)
qed

lemma preserves_agree_if:
  assumes "\<And>c. c \<in> set body \<Longrightarrow> preserves_agree c"
  shows "preserves_agree (if_stmt (\<lambda>s. cond) body)"
  using preserves_agree_exec[OF assms]
  by (cases cond) (auto simp: preserves_agree_def if_stmt_def)

lemma preserves_agree_print: "preserves_agree (print_stmt m)"
  by (simp add: preserves_agree_def print_stmt_def agree_def)

lemma preserves_agree_obs: "preserves_agree (obs_stmt k st nm)"
  unfolding obs_stmt_def
  by (rule preserves_agree_assign)
     (auto simp: agree_def bindE_def self_samples_def split: sum.splits option.splits)

lemma preserves_agree_var: "preserves_agree (var_stmt k st nm)"
  unfolding var_stmt_def
  by (rule preserves_agree_assign)
     (auto simp: agree_def bindE_def self_samples_def split: sum.splits option.splits)

lemma preserves_agree_layer: "preserves_agree (layer_stmt k e)"
  unfolding layer_stmt_def
  by (rule preserves_agree_assign)
     (auto simp: agree_def bindE_def self_samples_def split: sum.splits option.splits)

lemma preserves_agree_post_samples: "preserves_agree (post_samples_stmt slot)"
  unfolding post_samples_stmt_def
  by (rule preserves_agree_assign)
     (auto simp: agree_def bindE_def self_samples_def split: sum.splits option.splits uns_value.splits)

lemma preserves_agree_velocity_posterior: "preserves_agree velocity_posterior_stmt"
  unfolding velocity_posterior_stmt_def
  by (rule preserves_agree_assign)
     (auto simp: agree_def bindE_def self_samples_def split: sum.splits option.splits)

lemma preserves_agree_if_False: "preserves_agree (if_stmt (\<lambda>s. Inr False) body)"
  by (simp add: preserves_agree_def if_stmt_def)

lemma preserves_agree_if_post_samples:
  "preserves_agree (if_stmt (\<lambda>s. cond) [print_stmt m, post_samples_stmt slot])"
  by (rule preserves_agree_if) (auto simp: preserves_agree_print preserves_agree_post_samples)

lemma preserves_agree_if_velocity_posterior:
  "preserves_agree (if_stmt (\<lambda>s. cond) [print_stmt m, velocity_posterior_stmt])"
  by (rule preserves_agree_if) (auto simp: preserves_agree_print preserves_agree_velocity_posterior)

lemma preserves_agree_annotate:
  fixes c :: "'w stmt"
  assumes "c \<in> set (annotate_stmts kw slot fvp False)"
  shows "preserves_agree c"
proof -
  have "list_all preserves_agree (annotate_stmts kw slot fvp False :: 'w stmt list)"
    by (simp add: annotate_stmts_def preserves_agree_obs preserves_agree_var preserves_agree_layer
        preserves_agree_if_False preserves_agree_if_post_samples
        preserves_agree_if_velocity_posterior)
  then show ?thesis using assms by (simp add: list_all_iff)
qed

text \<open>
  C5. With \<^verbatim>\<open>normalize=False\<close>, the exception raised (if any) and the whole of \<^verbatim>\<open>adata\<close>
  after the call (the columns of \<^verbatim>\<open>obs\<close> and \<^verbatim>\<open>var\<close>, the export record, the velocity
  layers) are determined by the samples that \<^verbatim>\<open>sample_posterior\<close> returns in that call,
  together with the arguments, \<^verbatim>\<open>adata\<close> before the call, the date, the class name of the
  module and the names of \<^verbatim>\<open>self.adata\<close>: two calls in which these are the same leave the
  same \<^verbatim>\<open>adata\<close>, whatever samples were cached on the model.
\<close>

theorem export_posterior_function_of_draw:
  assumes "sample_posterior ext (as_dict a) (world s) = (Inr smp, w)"
    and "sample_posterior ext (as_dict a) (world t) = (Inr smp, w')"
    and "date_today ext w = date_today ext w'"
    and "adata s = adata t"
    and "module_class_name (self s) = module_class_name (self t)"
    and "self_var_names (self s) = self_var_names (self t)"
    and "self_obs_names (self s) = self_obs_names (self t)"
  shows "fst (export_posterior ext a slot fvp False s) = fst (export_posterior ext a slot fvp False t) \<and>
         adata (snd (export_posterior ext a slot fvp False s)) =
           adata (snd (export_posterior ext a slot fvp False t))"
proof -
  let ?s1 = "s\<lparr>world := w, trace := trace s @ [CallSamplePosterior (as_dict a)],
               self := (self s)\<lparr>samples := Some smp\<rparr>\<rparr>"
  let ?t1 = "t\<lparr>world := w', trace := trace t @ [CallSamplePosterior (as_dict a)],
               self := (self t)\<lparr>samples := Some smp\<rparr>\<rparr>"
  let ?ann = "exec (annotate_stmts (as_dict a) slot fvp False)"
  have ss: "sample_stmt ext (as_dict a) s = (None, ?s1)"
    using assms(1) by (simp add: sample_stmt_def)
  have st: "sample_stmt ext (as_dict a) t = (None, ?t1)"
    using assms(2) by (simp add: sample_stmt_def)
  obtain r s2 where es: "export_stmt ext slot ?s1 = (r, s2)" by (cases "export_stmt ext slot ?s1")
  obtain r' t2 where et: "export_stmt ext slot ?t1 = (r', t2)" by (cases "export_stmt ext slot ?t1")
  have e: "r = r'" "agree s2 t2"
    using es et assms(3-7)
    by (auto simp: export_stmt_def self_samples_def export2adata_def agree_def bindE_def
        split: sum.splits)
  have ps: "export_posterior ext a slot fvp False s = (case r of Some e \<Rightarrow> (Some e, s2) | None \<Rightarrow> ?ann s2)"
    by (simp add: export_posterior_unfold ss es split: option.splits)
  have pt: "export_posterior ext a slot fvp False t = (case r of Some e \<Rightarrow> (Some e, t2) | None \<Rightarrow> ?ann t2)"
    by (simp add: export_posterior_unfold st et e(1) split: option.splits)
  have "preserves_agree ?ann"
    by (rule preserves_agree_exec) (rule preserves_agree_annotate)
  then have "fst (?ann s2) = fst (?ann t2) \<and> agree (snd (?ann s2)) (snd (?ann t2))"
    using e(2) unfolding preserves_agree_def by blast
  then show ?thesis
    using e(2) by (cases r) (simp_all add: ps pt agree_def)
qed


theorem export_posterior_function_of_draw_witness:
  "fst (export_posterior example_ext (PyDict [(''return_samples'', KwBool False)]) ''mod'' False False
          example_state) =
   fst (export_posterior example_ext (PyDict [(''return_samples'', KwBool False)]) ''mod'' False False
          sampled_state) \<and>
   adata (snd (export_posterior example_ext (PyDict [(''return_samples'', KwBool False)]) ''mod''
                 False False example_state)) =
   adata (snd (export_posterior example_ext (PyDict [(''return_samples'', KwBool False)]) ''mod''
                 False False sampled_state))"
  using export_posterior_function_of_draw [of example_ext
      "PyDict [(''return_samples'', KwBool False)]" example_state "scenario_samples 0" 1
      sampled_state 1 "''mod''" False]
  by (simp add: example_ext_def example_state_def sampled_state_def)

text \<open>
  The annotations are not a function of the cached samples. A model whose cached samples are
  the scenario's is exported twice; the second call starts with the same cached samples as the
  first, draws again, and writes another latent time.
\<close>

lemma second_export:
  "map_of (obs (adata (snd (export_posterior example_ext
       (PyDict [(''return_samples'', KwBool False)]) ''mod'' False False exported_state))))
     ''latent_time_mean'' = Some (vec [1])"
  by (simp add: np_defs prog_defs example_defs)

theorem export_posterior_cached_counterexample:
  "samples (self sampled_state) = Some (scenario_samples 0) \<and>
   export_posterior example_ext (PyDict [(''return_samples'', KwBool False)]) ''mod'' False False
     sampled_state = (None, exported_state) \<and>
   map_of (obs (adata exported_state)) ''latent_time_mean'' = Some (vec [0]) \<and>
   samples (self exported_state) = Some (scenario_samples 0) \<and>
   map_of (obs (adata (snd (export_posterior example_ext
       (PyDict [(''return_samples'', KwBool False)]) ''mod'' False False exported_state))))
     ''latent_time_mean'' = Some (vec [1])"
proof -
  have "export_posterior example_ext (PyDict [(''return_samples'', KwBool False)]) ''mod'' False False
          sampled_state = (None, exported_state)"
    using example_export
    by (simp add: export_posterior_unfold sample_stmt_def sampled_state_def example_state_def
        example_ext_def del: exec.simps)
  then show ?thesis
    using second_export
    by (simp add: sampled_state_def example_state_def exported_state_def example_model_def
        example_adata_def)
qed

section \<open>Normalised counts\<close>
































section \<open>The subsample of the reconstruction plots\<close>










section \<open>The reconstruction plots without a subsample\<close>

text \<open>
  C7. With \<^verbatim>\<open>use_n_obs=None\<close> no subsample is drawn and the forward map is called with
  \<^verbatim>\<open>ind_x=None\<close>, but the observed counts are read as \<^verbatim>\<open>X[None, :]\<close>. For a dense layer
  of two cells and one gene the arrays that are plotted have the shape \<^verbatim>\<open>(1, 2, 1)\<close>, not
  \<^verbatim>\<open>(2, 1)\<close>; for a sparse layer the call raises \<^verbatim>\<open>IndexError\<close>.
\<close>

theorem plot_QC_None_adds_axis:
  "plot_QC example_ext ''means'' None pair_state =
     (None,
      pair_state\<lparr>self := (self pair_state)\<lparr>expected_nb_param :=
                    Some [(''mu'', NDArray [2, 1, 2] [Fin 1, Fin 1, Fin 1, Fin 1])]\<rparr>,
        trace := [CallComputeExpected (scenario_means 0) None,
                  PlotPosteriorMuVsData (NDArray [2, 1] [Fin 1, Fin 1]) (NDArray [1, 2, 1] [Fin 4, Fin 8]),
                  PlotTitle ''Reconstruction Accuracy (unspliced)'',
                  PlotPosteriorMuVsData (NDArray [2, 1] [Fin 1, Fin 1]) (NDArray [1, 2, 1] [Fin 16, Fin 40]),
                  PlotTitle ''Reconstruction Accuracy (spliced)'']\<rparr>) \<and>
   shape (to_dense (reg_unspliced pair_registry)) = [2, 1] \<and>
   fst (plot_QC example_ext ''means'' None
          (pair_state\<lparr>self := (self pair_state)\<lparr>adata_manager :=
             pair_registry\<lparr>reg_unspliced := Sparse (NDArray [2, 1] [Fin 4, Fin 8])\<rparr>\<rparr>\<rparr>)) =
     Some IndexError"
  by (simp add: np_defs prog_defs example_defs pair_state_def pair_registry_def pair_adata_def
      eval_nat_numeral)

end
